theory Spec2Isabelle
  imports Main
begin

section \<open>Values, exceptions and the log of calls\<close>

text \<open>
  The satellite manager of \<open>skypipe/cloud.py\<close> is sequential code that talks to the
  dotcloud platform through a CLI object, resolves a host name, and probes an endpoint.
  Every such call is an entry of a log; the answers come from a \<open>world\<close>, whose
  oracles see the log so far, so that the same call may be answered differently each time.
\<close>

datatype exn =
    RESTAPIError int
  | KeyError string
  | RuntimeError
  | KeyboardInterrupt
  | SystemExit
  | OtherError string

datatype pyval = PNone | PBool bool | PInt int | PStr string

type_synonym pydict = "(string \<times> string) list"

text \<open>What \<open>cli.user.get/post/delete\<close> answer: the fields the code reads.\<close>

datatype response = Response (item: pydict) (items: "string list") (trace_id: string)

datatype event =
    Info string
  | ErrorMsg string
  | Die "string option"
  | WaitFor string
  | FinishSet
  | StdoutRedirect
  | StdoutRestore
  | UserGet string "exn + response"
  | UserPost string "(string \<times> pyval) list" "exn + response"
  | UserDelete string "exn + response"
  | GetHostByName string "exn + string"
  | CheckSkypipeEndpoint string int bool
  | SelectEndpoint "string list" string "exn + string"
  | PushWithRsync string string "exn + unit"
  | StreamDeployLogs string string string "exn + int"

record world =
  global_config_loaded :: bool
  satellite_path :: string
  user_get :: "event list \<Rightarrow> string \<Rightarrow> exn + response"
  user_post :: "event list \<Rightarrow> string \<Rightarrow> (string \<times> pyval) list \<Rightarrow> exn + response"
  user_delete :: "event list \<Rightarrow> string \<Rightarrow> exn + response"
  gethostbyname :: "event list \<Rightarrow> string \<Rightarrow> exn + string"
  probe :: "event list \<Rightarrow> string \<Rightarrow> int \<Rightarrow> bool"
  select_endpoint :: "event list \<Rightarrow> string list \<Rightarrow> string \<Rightarrow> exn + string"
  push_with_rsync :: "event list \<Rightarrow> string \<Rightarrow> string \<Rightarrow> exn + unit"
  stream_deploy_logs :: "event list \<Rightarrow> string \<Rightarrow> string \<Rightarrow> string \<Rightarrow> exn + int"
  fmt_deploy_logs_command :: "string \<Rightarrow> string"
  exn_str :: "exn \<Rightarrow> string"

section \<open>Sequencing, exceptions, try/except/finally\<close>

text \<open>
  A computation reads the log so far and answers its outcome (\<open>Inl\<close> an exception
  raised, \<open>Inr\<close> a value returned) together with the entries it adds to the log.
\<close>

type_synonym 'a comp = "event list \<Rightarrow> (exn + 'a) \<times> event list"

definition ret :: "'a \<Rightarrow> 'a comp" where
  "ret x h = (Inr x, [])"

definition throw :: "exn \<Rightarrow> 'a comp" where
  "throw e h = (Inl e, [])"

definition seq :: "'a comp \<Rightarrow> ('a \<Rightarrow> 'b comp) \<Rightarrow> 'b comp" where
  "seq m f h =
     (case m h of
        (Inl e, n) \<Rightarrow> (Inl e, n)
      | (Inr x, n) \<Rightarrow> (case f x (h @ n) of (r, n') \<Rightarrow> (r, n @ n')))"

text \<open>
  \<open>try: body except ...\<close>: the handler answers \<open>None\<close> for an exception that no
  \<open>except\<close> clause names, which then goes on to the caller.
\<close>

definition try_except :: "'a comp \<Rightarrow> (exn \<Rightarrow> 'a comp option) \<Rightarrow> 'a comp" where
  "try_except body handler h =
     (case body h of
        (Inr x, n) \<Rightarrow> (Inr x, n)
      | (Inl e, n) \<Rightarrow>
          (case handler e of
             None \<Rightarrow> (Inl e, n)
           | Some k \<Rightarrow> (case k (h @ n) of (r, n') \<Rightarrow> (r, n @ n'))))"

text \<open>\<open>finally\<close>: the closing action runs on every way out and keeps the outcome.\<close>

definition ensure :: "'a comp \<Rightarrow> unit comp \<Rightarrow> 'a comp" where
  "ensure m fin h = (case m h of (r, n) \<Rightarrow> (r, n @ snd (fin (h @ n))))"

definition emit :: "event \<Rightarrow> unit comp" where
  "emit ev h = (Inr (), [ev])"

definition call :: "(event list \<Rightarrow> exn + 'a) \<Rightarrow> ((exn + 'a) \<Rightarrow> event) \<Rightarrow> 'a comp" where
  "call f ev h = (f h, [ev (f h)])"

text \<open>The outcome of a run started on log \<open>h\<close>, and the calls it made.\<close>

definition outcome :: "'a comp \<Rightarrow> event list \<Rightarrow> exn + 'a" where
  "outcome m h = fst (m h)"

definition trace :: "'a comp \<Rightarrow> event list \<Rightarrow> event list" where
  "trace m h = snd (m h)"

section \<open>The collaborators\<close>

definition cli_info :: "string \<Rightarrow> unit comp" where
  "cli_info msg = emit (Info msg)"

definition cli_error :: "string \<Rightarrow> unit comp" where
  "cli_error msg = emit (ErrorMsg msg)"

text \<open>
  \<open>cli.die\<close> belongs to the dotcloud client: it prints the message, if any, and leaves
  the process by \<open>sys.exit(1)\<close>, that is, it raises \<open>SystemExit\<close>.
\<close>

definition cli_die :: "string option \<Rightarrow> 'a comp" where
  "cli_die msg = seq (emit (Die msg)) (\<lambda>_. throw SystemExit)"

definition cli_user_get :: "world \<Rightarrow> string \<Rightarrow> response comp" where
  "cli_user_get w url = call (\<lambda>h. user_get w h url) (UserGet url)"

definition cli_user_post :: "world \<Rightarrow> string \<Rightarrow> (string \<times> pyval) list \<Rightarrow> response comp" where
  "cli_user_post w url payload = call (\<lambda>h. user_post w h url payload) (UserPost url payload)"

definition cli_user_delete :: "world \<Rightarrow> string \<Rightarrow> response comp" where
  "cli_user_delete w url = call (\<lambda>h. user_delete w h url) (UserDelete url)"

definition socket_gethostbyname :: "world \<Rightarrow> string \<Rightarrow> string comp" where
  "socket_gethostbyname w name = call (\<lambda>h. gethostbyname w h name) (GetHostByName name)"

text \<open>
  Modelled from the spec: \<open>client.check_skypipe_endpoint\<close> lives in \<open>skypipe/client.py\<close>,
  which is not among the sources. The spec's Endpoint Prober answers a boolean within
  the timeout it is given and returns false, rather than raising, when the endpoint is
  unreachable or speaks another protocol. The world's \<open>probe\<close> is that answer.
\<close>

definition check_skypipe_endpoint :: "world \<Rightarrow> string \<Rightarrow> int \<Rightarrow> bool comp" where
  "check_skypipe_endpoint w endpoint timeout h =
     (Inr (probe w h endpoint timeout),
      [CheckSkypipeEndpoint endpoint timeout (probe w h endpoint timeout)])"

definition cli_select_endpoint :: "world \<Rightarrow> string list \<Rightarrow> string \<Rightarrow> string comp" where
  "cli_select_endpoint w eps protocol =
     call (\<lambda>h. select_endpoint w h eps protocol) (SelectEndpoint eps protocol)"

definition cli_push_with_rsync :: "world \<Rightarrow> string \<Rightarrow> string \<Rightarrow> unit comp" where
  "cli_push_with_rsync w path endpoint =
     call (\<lambda>h. push_with_rsync w h path endpoint) (PushWithRsync path endpoint)"

definition cli_stream_deploy_logs :: "world \<Rightarrow> string \<Rightarrow> string \<Rightarrow> string \<Rightarrow> int comp" where
  "cli_stream_deploy_logs w app deploy_id deploy_trace_id =
     call (\<lambda>h. stream_deploy_logs w h app deploy_id deploy_trace_id)
          (StreamDeployLogs app deploy_id deploy_trace_id)"

text \<open>\<open>d[k]\<close> on a dictionary raises \<open>KeyError\<close> for a key that is absent.\<close>

definition getitem :: "pydict \<Rightarrow> string \<Rightarrow> string comp" where
  "getitem d k = (case map_of d k of None \<Rightarrow> throw (KeyError k) | Some v \<Rightarrow> ret v)"

text \<open>
  \<open>wait_for\<close> stops the previous row of dots, writes the text and starts a thread that
  prints dots until its event is set. Only the call is logged: the thread writes to the
  terminal and decides nothing.
\<close>

definition wait_for :: "string \<Rightarrow> unit comp" where
  "wait_for text = emit (WaitFor text)"

section \<open>The satellite manager\<close>

definition APPNAME :: string where
  "APPNAME = ''skypipe0''"

definition lookup_endpoint :: "world \<Rightarrow> string comp" where
  "lookup_endpoint w =
     seq (cli_user_get w (''/applications/'' @ APPNAME @ ''/environment'')) (\<lambda>resp.
     seq (getitem (item resp) ''DOTCLOUD_SATELLITE_ZMQ_PORT'') (\<lambda>port.
     seq (getitem (item resp) ''DOTCLOUD_SATELLITE_ZMQ_HOST'') (\<lambda>hostname.
     seq (socket_gethostbyname w hostname) (\<lambda>host.
     ret (''tcp://'' @ host @ '':'' @ port)))))"

definition destroy_satellite :: "world \<Rightarrow> unit comp" where
  "destroy_satellite w =
     try_except
       (seq (cli_user_delete w (''/applications/'' @ APPNAME)) (\<lambda>res. ret ()))
       (\<lambda>e. case e of RESTAPIError code \<Rightarrow> Some (ret ()) | _ \<Rightarrow> None)"

text \<open>The blocks of \<open>launch_satellite\<close>, in the order of the source.\<close>

definition create_application :: "world \<Rightarrow> unit comp" where
  \<comment> \<open>create new satellite app\<close>
  \<open>create_application w =
     try_except
       (seq (cli_user_post w ''/applications''
               [(''name'', PStr APPNAME), (''flavor'', PStr ''sandbox'')]) (\<lambda>res. ret ()))
       (\<lambda>e. case e of
          RESTAPIError code \<Rightarrow>
            Some (if code = 409
                  then cli_die (Some (''Application "'' @ APPNAME @ ''" already exists.''))
                  else cli_die (Some (''Creating application "'' @ APPNAME @ ''" failed: ''
                                        @ exn_str w e)))
        | _ \<Rightarrow> None)\<close>

definition push_satellite_code :: "world \<Rightarrow> unit comp" where
  \<comment> \<open>push satellite code\<close>
  "push_satellite_code w =
     seq (cli_user_get w (''/applications/'' @ APPNAME @ ''/push-endpoints'' @ '''')) (\<lambda>resp.
     seq (cli_select_endpoint w (items resp) ''rsync'') (\<lambda>endpoint.
     cli_push_with_rsync w (satellite_path w) endpoint))"

definition trigger_deployment :: "world \<Rightarrow> (string \<times> string) comp" where
  \<comment> \<open>tell dotcloud to deploy; the answer is \<open>(deploy_trace_id, deploy_id)\<close>\<close>
  "trigger_deployment w =
     seq (cli_user_post w (''/applications/'' @ APPNAME @ ''/deployments'')
            [(''revision'', PNone), (''clean'', PBool False)]) (\<lambda>resp.
     seq (getitem (item resp) ''deploy_id'') (\<lambda>deploy_id.
     ret (trace_id resp, deploy_id)))"

definition follow_deploy_logs :: "world \<Rightarrow> string \<Rightarrow> string \<Rightarrow> pyval option comp" where
  \<comment> \<open>the \<open>try\<close> around the log stream; \<open>Some v\<close> is its \<open>return v\<close>, \<open>None\<close> falls through\<close>
  "follow_deploy_logs w deploy_id deploy_trace_id =
     ensure
       (try_except
          (seq (emit StdoutRedirect) (\<lambda>_.
           seq (cli_stream_deploy_logs w APPNAME deploy_id deploy_trace_id) (\<lambda>res.
           if res \<noteq> 0 then ret (Some (PInt res)) else ret None)))
          (\<lambda>e. case e of
             KeyboardInterrupt \<Rightarrow> Some (
               seq (cli_error (''You've closed your log stream with Ctrl-C, ''
                      @ ''but the deployment is still running in the background.'')) (\<lambda>_.
               seq (cli_error (''If you aborted because of an error ''
                      @ ''(e.g. the deployment got stuck), please e-mail\<newline>''
                      @ ''support@dotcloud.com and mention this trace ID: ''
                      @ deploy_trace_id)) (\<lambda>_.
               seq (cli_error (''If you want to continue following your deployment, ''
                      @ ''try:\<newline>'' @ fmt_deploy_logs_command w deploy_id)) (\<lambda>_.
               cli_die None))))
           | RuntimeError \<Rightarrow> Some (ret None)
           | _ \<Rightarrow> None))
       (emit StdoutRestore)"

definition satellite_coming_online :: "world \<Rightarrow> pyval comp" where
  \<comment> \<open>from \<open>wait_for("    Satellite coming online", finish)\<close> to the end\<close>
  "satellite_coming_online w =
     seq (wait_for ''    Satellite coming online'') (\<lambda>_.
     seq (lookup_endpoint w) (\<lambda>endpoint.
     seq (check_skypipe_endpoint w endpoint 120) (\<lambda>ok.
     seq (emit FinishSet) (\<lambda>_.
     if ok then ret (PStr endpoint)
     else cli_die (Some ''Satellite failed to come online'')))))"

definition launch_satellite :: "world \<Rightarrow> pyval comp" where
  "launch_satellite w =
     seq (cli_info ''Launching skypipe satellite:'') (\<lambda>_.
     seq (wait_for ''    Pushing to dotCloud'') (\<lambda>_.
     seq (destroy_satellite w) (\<lambda>_.
     seq (create_application w) (\<lambda>_.
     seq (push_satellite_code w) (\<lambda>_.
     seq (trigger_deployment w) (\<lambda>(deploy_trace_id, deploy_id).
     seq (wait_for ''    Waiting for deployment'') (\<lambda>_.
     seq (follow_deploy_logs w deploy_id deploy_trace_id) (\<lambda>early.
     case early of
       Some res \<Rightarrow> ret res
     | None \<Rightarrow> satellite_coming_online w))))))))"

definition discover_satellite :: "world \<Rightarrow> bool \<Rightarrow> int \<Rightarrow> pyval comp" where
  "discover_satellite w deploy timeout =
     seq (if \<not> global_config_loaded w
          then cli_die (Some ''Please setup skypipe by running `skypipe --setup`'')
          else ret ()) (\<lambda>_.
     try_except
       (seq (lookup_endpoint w) (\<lambda>endpoint.
        seq (check_skypipe_endpoint w endpoint timeout) (\<lambda>ok.
        if ok then ret (PStr endpoint)
        else (if deploy then launch_satellite w else ret PNone))))
       (\<lambda>e. case e of
          RESTAPIError code \<Rightarrow> Some (if deploy then launch_satellite w else ret PNone)
        | KeyError k \<Rightarrow> Some (if deploy then launch_satellite w else ret PNone)
        | _ \<Rightarrow> None))"

text \<open>
  The signature is \<open>discover_satellite(cli, deploy=True, timeout=5)\<close>: an argument the
  caller leaves out takes its default, as in \<open>setup\<close>, which calls
  \<open>discover_satellite(cli)\<close>.
\<close>

definition discover_satellite_call :: "world \<Rightarrow> bool option \<Rightarrow> int option \<Rightarrow> pyval comp" where
  "discover_satellite_call w deploy timeout =
     discover_satellite w (case deploy of None \<Rightarrow> True | Some d \<Rightarrow> d)
       (case timeout of None \<Rightarrow> 5 | Some t \<Rightarrow> t)"

section \<open>Classifying the calls of a run\<close>

text \<open>
  \<open>emits P m\<close>: whatever the log so far, every entry that \<open>m\<close> adds satisfies \<open>P\<close>.
\<close>

definition emits :: "(event \<Rightarrow> bool) \<Rightarrow> 'a comp \<Rightarrow> bool" where
  "emits P m \<longleftrightarrow> (\<forall>h. list_all P (snd (m h)))"

text \<open>
  The kinds of call the claims speak of: the create of the application, the delete, the
  log stream, the probe, and the calls that change something on the platform.
\<close>

definition is_create :: "event \<Rightarrow> bool" where
  "is_create e = (case e of UserPost url payload r \<Rightarrow> url = ''/applications'' | _ \<Rightarrow> False)"

definition is_destroy :: "event \<Rightarrow> bool" where
  "is_destroy e = (case e of UserDelete url r \<Rightarrow> True | _ \<Rightarrow> False)"

definition is_stream :: "event \<Rightarrow> bool" where
  "is_stream e = (case e of StreamDeployLogs a d t r \<Rightarrow> True | _ \<Rightarrow> False)"

definition is_probe :: "event \<Rightarrow> bool" where
  "is_probe e = (case e of CheckSkypipeEndpoint ep t ok \<Rightarrow> True | _ \<Rightarrow> False)"

definition mutating :: "event \<Rightarrow> bool" where
  "mutating e = (case e of UserPost url payload r \<Rightarrow> True | UserDelete url r \<Rightarrow> True
     | PushWithRsync path ep r \<Rightarrow> True | _ \<Rightarrow> False)"

text \<open>
  Parts of \<open>launch_satellite\<close>, named for the proofs: what follows the waiting for the
  deployment, what follows the create, and all that precedes the log stream.
  \<open>launch_satellite\<close> is shown below to be their composition.
\<close>

definition finish_launch :: "world \<Rightarrow> string \<Rightarrow> string \<Rightarrow> pyval comp" where
  "finish_launch w deploy_trace_id deploy_id =
     seq (follow_deploy_logs w deploy_id deploy_trace_id) (\<lambda>early.
     case early of Some res \<Rightarrow> ret res | None \<Rightarrow> satellite_coming_online w)"

definition after_create :: "world \<Rightarrow> pyval comp" where
  "after_create w =
     seq (push_satellite_code w) (\<lambda>_.
     seq (trigger_deployment w) (\<lambda>(deploy_trace_id, deploy_id).
     seq (wait_for ''    Waiting for deployment'') (\<lambda>_.
     finish_launch w deploy_trace_id deploy_id)))"

definition before_stream :: "world \<Rightarrow> (string \<times> string) comp" where
  "before_stream w =
     seq (cli_info ''Launching skypipe satellite:'') (\<lambda>_.
     seq (wait_for ''    Pushing to dotCloud'') (\<lambda>_.
     seq (destroy_satellite w) (\<lambda>_.
     seq (create_application w) (\<lambda>_.
     seq (push_satellite_code w) (\<lambda>_.
     seq (trigger_deployment w) (\<lambda>ids.
     seq (wait_for ''    Waiting for deployment'') (\<lambda>_. ret ids)))))))"

text \<open>The first calls of a launch, and the answers to the delete that let the run go on.\<close>

definition durl :: string where "durl = ''/applications/skypipe0''"

definition create_payload :: "(string \<times> pyval) list" where
  "create_payload = [(''name'', PStr ''skypipe0''), (''flavor'', PStr ''sandbox'')]"

definition launch_intro :: "event list" where
  "launch_intro = [Info ''Launching skypipe satellite:'', WaitFor ''    Pushing to dotCloud'']"

fun absorbed :: "exn + response \<Rightarrow> bool" where
  "absorbed (Inr res) = True"
| "absorbed (Inl (RESTAPIError code)) = True"
| "absorbed (Inl e) = False"

definition destroy_done :: "event \<Rightarrow> bool" where
  "destroy_done e =
     (case e of UserDelete url r \<Rightarrow> url = ''/applications/skypipe0'' \<and> absorbed r | _ \<Rightarrow> False)"

text \<open>The environment lookup, and what a run logs around the log stream.\<close>

definition is_env_lookup :: "event \<Rightarrow> bool" where
  "is_env_lookup e =
     (case e of UserGet url r \<Rightarrow> url = ''/applications/skypipe0/environment'' | _ \<Rightarrow> False)"

definition interrupt_messages :: "world \<Rightarrow> string \<Rightarrow> string \<Rightarrow> event list" where
  "interrupt_messages w deploy_id deploy_trace_id =
     [ErrorMsg (''You've closed your log stream with Ctrl-C, ''
        @ ''but the deployment is still running in the background.''),
      ErrorMsg (''If you aborted because of an error ''
        @ ''(e.g. the deployment got stuck), please e-mail\<newline>''
        @ ''support@dotcloud.com and mention this trace ID: '' @ deploy_trace_id),
      ErrorMsg (''If you want to continue following your deployment, ''
        @ ''try:\<newline>'' @ fmt_deploy_logs_command w deploy_id),
      Die None]"

definition stream_event :: "world \<Rightarrow> event list \<Rightarrow> string \<Rightarrow> string \<Rightarrow> event" where
  "stream_event w h did tid = StreamDeployLogs ''skypipe0'' did tid
     (stream_deploy_logs w (h @ [StdoutRedirect]) ''skypipe0'' did tid)"

definition online_wait :: event where
  "online_wait = WaitFor ''    Satellite coming online''"

text \<open>
  The exceptions that the \<open>except\<close> clause of \<open>discover_satellite\<close> names, and that clause as
  a handler.
\<close>

definition env_url :: string where
  "env_url = ''/applications/skypipe0/environment''"

definition caught :: "exn \<Rightarrow> bool" where
  "caught e = (case e of RESTAPIError code \<Rightarrow> True | KeyError k \<Rightarrow> True | _ \<Rightarrow> False)"

definition discover_handler :: "world \<Rightarrow> bool \<Rightarrow> exn \<Rightarrow> pyval comp option" where
  "discover_handler w deploy e =
     (case e of
        RESTAPIError code \<Rightarrow> Some (if deploy then launch_satellite w else ret PNone)
      | KeyError k \<Rightarrow> Some (if deploy then launch_satellite w else ret PNone)
      | _ \<Rightarrow> None)"

definition probe_timeout_is :: "int \<Rightarrow> event \<Rightarrow> bool" where
  "probe_timeout_is t e = (case e of CheckSkypipeEndpoint ep t' ok \<Rightarrow> t' = t | _ \<Rightarrow> True)"

section \<open>Concrete worlds\<close>

text \<open>A platform on which every call succeeds and the satellite answers every probe.\<close>

definition healthy_world :: world where
  "healthy_world = \<lparr>
     global_config_loaded = True,
     satellite_path = ''/opt/skypipe/satellite'',
     user_get = (\<lambda>h url. Inr (Response
        [(''DOTCLOUD_SATELLITE_ZMQ_HOST'', ''10.0.0.5''), (''DOTCLOUD_SATELLITE_ZMQ_PORT'', ''9000'')]
        [''rsync://push''] ''g'')),
     user_post = (\<lambda>h url payload. Inr (Response [(''deploy_id'', ''d1'')] [] ''t1'')),
     user_delete = (\<lambda>h url. Inr (Response [] [] ''x'')),
     gethostbyname = (\<lambda>h name. Inr name),
     probe = (\<lambda>h endpoint timeout. True),
     select_endpoint = (\<lambda>h eps protocol. case eps of [] \<Rightarrow> Inl SystemExit | e # _ \<Rightarrow> Inr e),
     push_with_rsync = (\<lambda>h path endpoint. Inr ()),
     stream_deploy_logs = (\<lambda>h app deploy_id deploy_trace_id. Inr 0),
     fmt_deploy_logs_command = (\<lambda>deploy_id. ''dotcloud deploy logs '' @ deploy_id),
     exn_str = (\<lambda>e. ''error'')
   \<rparr>"

text \<open>The platform still holds an application of that name when the new one is created.\<close>

definition conflict_world :: world where
  "conflict_world = healthy_world\<lparr>user_post := (\<lambda>h url payload. Inl (RESTAPIError 409))\<rparr>"

text \<open>The deployment fails: the log stream ends with exit code 1. The platform's trace
  identifier is a parameter.\<close>

definition deploy_fails_world :: "string \<Rightarrow> world" where
  "deploy_fails_world t = healthy_world\<lparr>
     user_post := (\<lambda>h url payload. Inr (Response [(''deploy_id'', ''d1'')] [] t)),
     stream_deploy_logs := (\<lambda>h app deploy_id deploy_trace_id. Inr 1)\<rparr>"

text \<open>The client's log stream raises \<open>RuntimeError\<close>.\<close>

definition runtime_error_world :: world where
  "runtime_error_world = healthy_world\<lparr>
     stream_deploy_logs := (\<lambda>h app deploy_id deploy_trace_id. Inl RuntimeError)\<rparr>"

text \<open>The satellite never answers a probe.\<close>

definition never_online_world :: world where
  "never_online_world = healthy_world\<lparr>probe := (\<lambda>h endpoint timeout. False)\<rparr>"

text \<open>The satellite answers a probe only when it is given at least 60 time units.\<close>

definition slow_world :: world where
  "slow_world = healthy_world\<lparr>probe := (\<lambda>h endpoint timeout. 60 \<le> timeout)\<rparr>"

text \<open>The dotcloud credentials have not been set up.\<close>

definition unconfigured_world :: world where
  "unconfigured_world = healthy_world\<lparr>global_config_loaded := False\<rparr>"

text \<open>The host name of the environment does not resolve.\<close>

definition unresolved_world :: world where
  "unresolved_world = healthy_world\<lparr>
     gethostbyname := (\<lambda>h name. Inl (OtherError ''socket.gaierror''))\<rparr>"


text \<open>An old satellite is registered but does not answer, and the platform fails to
  list the push endpoints.\<close>

definition stale_world :: world where
  "stale_world = healthy_world\<lparr>
     probe := (\<lambda>h endpoint timeout. False),
     user_get := (\<lambda>h url. if url = ''/applications/skypipe0/push-endpoints''
                           then Inl (RESTAPIError 500) else user_get healthy_world h url)\<rparr>"

text \<open>The deployment fails, and the satellite registered before does not answer.\<close>

definition failed_redeploy_world :: "string \<Rightarrow> world" where
  "failed_redeploy_world t = (deploy_fails_world t)\<lparr>probe := (\<lambda>h endpoint timeout. False)\<rparr>"


section \<open>What a computation may add to the log\<close>

lemma emits_ret: "emits P (ret x)" by (simp add: emits_def ret_def)

lemma emits_throw: "emits P (throw e)" by (simp add: emits_def throw_def)

lemma emits_emit: "P ev \<Longrightarrow> emits P (emit ev)" by (simp add: emits_def emit_def)

lemma emits_call: "(\<And>r. P (ev r)) \<Longrightarrow> emits P (call f ev)" by (simp add: emits_def call_def)

lemma emits_check: "(\<And>ok. P (CheckSkypipeEndpoint ep t ok)) \<Longrightarrow> emits P (check_skypipe_endpoint w ep t)"
  by (simp add: emits_def check_skypipe_endpoint_def)

lemma emits_seq:
  "emits P m \<Longrightarrow> (\<And>x. emits P (f x)) \<Longrightarrow> emits P (seq m f)"
  unfolding emits_def seq_def
  by (auto split: prod.splits sum.splits) (metis snd_conv)+

lemma emits_try_except:
  "emits P body \<Longrightarrow> (\<And>e k. handler e = Some k \<Longrightarrow> emits P k) \<Longrightarrow> emits P (try_except body handler)"
  unfolding emits_def try_except_def
  by (auto split: prod.splits sum.splits option.splits) (metis snd_conv)+

lemma emits_ensure:
  "emits P m \<Longrightarrow> emits P fin \<Longrightarrow> emits P (ensure m fin)"
  unfolding emits_def ensure_def
  by (auto split: prod.splits) (metis snd_conv)

lemma emits_die: "P (Die msg) \<Longrightarrow> emits P (cli_die msg)"
  unfolding cli_die_def by (intro emits_seq emits_emit emits_throw)

lemma emits_getitem: "emits P (getitem d k)"
  by (simp add: getitem_def emits_ret emits_throw split: option.splits)

lemma emits_mono: "emits P m \<Longrightarrow> (\<And>e. P e \<Longrightarrow> Q e) \<Longrightarrow> emits Q m"
  unfolding emits_def list_all_iff by blast

lemma emits_trace: "emits P m \<Longrightarrow> list_all P (trace m h)"
  unfolding emits_def trace_def by simp

lemma seq_ret: "seq (ret x) f = f x"
  by (rule ext) (simp add: seq_def ret_def split: prod.splits)

lemma seq_assoc: "seq (seq m f) g = seq m (\<lambda>x. seq (f x) g)"
  by (rule ext) (simp add: seq_def split: prod.splits sum.splits)

lemma seq_Inl: "m h = (Inl e, n) \<Longrightarrow> seq m f h = (Inl e, n)"
  by (simp add: seq_def)

lemma seq_Inr: "m h = (Inr x, n) \<Longrightarrow> seq m f h = (fst (f x (h @ n)), n @ snd (f x (h @ n)))"
  by (simp add: seq_def split: prod.splits)

lemma seq_reach:
  assumes "emits P m" and "\<not> P e" and "e \<in> set (snd (seq m f h))"
  obtains x n where "m h = (Inr x, n)" and "list_all P n" and "e \<in> set (snd (f x (h @ n)))"
proof -
  obtain r n where mh: "m h = (r, n)" by (cases "m h")
  have n: "list_all P n" using assms(1) mh unfolding emits_def by (metis snd_conv)
  then have notin: "e \<notin> set n" using assms(2) by (auto simp: list_all_iff)
  show thesis
  proof (cases r)
    case (Inl ex)
    then have "snd (seq m f h) = n" using mh by (simp add: seq_def)
    then show thesis using assms(3) notin by simp
  next
    case (Inr x)
    then have "snd (seq m f h) = n @ snd (f x (h @ n))" using mh by (simp add: seq_Inr)
    then have "e \<in> set (snd (f x (h @ n)))" using assms(3) notin by simp
    then show thesis using that mh Inr n by simp
  qed
qed

lemma emits_info: "P (Info msg) \<Longrightarrow> emits P (cli_info msg)"
  by (simp add: cli_info_def emits_emit)

lemma emits_error: "P (ErrorMsg msg) \<Longrightarrow> emits P (cli_error msg)"
  by (simp add: cli_error_def emits_emit)

lemma emits_wait_for: "P (WaitFor text) \<Longrightarrow> emits P (wait_for text)"
  by (simp add: wait_for_def emits_emit)

lemma emits_lookup_endpoint:
  assumes "\<And>r. P (UserGet ''/applications/skypipe0/environment'' r)"
    and "\<And>n r. P (GetHostByName n r)"
  shows "emits P (lookup_endpoint w)"
  unfolding lookup_endpoint_def cli_user_get_def socket_gethostbyname_def APPNAME_def
  by (intro emits_seq emits_call emits_getitem emits_ret) (simp_all add: assms)

lemma emits_destroy_satellite:
  assumes "\<And>u r. P (UserDelete u r)"
  shows "emits P (destroy_satellite w)"
  unfolding destroy_satellite_def cli_user_delete_def
  by (intro emits_try_except emits_seq emits_call emits_ret assms)
     (auto split: exn.splits intro: emits_ret)

lemma emits_create_application:
  assumes "\<And>p r. P (UserPost ''/applications'' p r)" and "\<And>m. P (Die m)"
  shows "emits P (create_application w)"
  unfolding create_application_def cli_user_post_def
  by (intro emits_try_except emits_seq emits_call emits_ret assms)
     (auto split: exn.splits if_splits intro: emits_die assms)

lemma emits_push_satellite_code:
  assumes "\<And>r. P (UserGet ''/applications/skypipe0/push-endpoints'' r)" and "\<And>eps p r. P (SelectEndpoint eps p r)"
    and "\<And>p ep r. P (PushWithRsync p ep r)"
  shows "emits P (push_satellite_code w)"
  unfolding push_satellite_code_def cli_user_get_def cli_select_endpoint_def cli_push_with_rsync_def
    APPNAME_def
  by (intro emits_seq emits_call) (simp_all add: assms)

lemma emits_trigger_deployment:
  assumes "\<And>p r. P (UserPost ''/applications/skypipe0/deployments'' p r)"
  shows "emits P (trigger_deployment w)"
  unfolding trigger_deployment_def cli_user_post_def APPNAME_def
  by (intro emits_seq emits_call emits_getitem emits_ret) (simp add: assms)

lemma emits_follow_deploy_logs:
  assumes "P StdoutRedirect" and "P StdoutRestore" and "\<And>a d t r. P (StreamDeployLogs a d t r)"
    and "\<And>m. P (ErrorMsg m)" and "\<And>m. P (Die m)"
  shows "emits P (follow_deploy_logs w deploy_id deploy_trace_id)"
  unfolding follow_deploy_logs_def cli_stream_deploy_logs_def
  apply (intro emits_ensure emits_try_except emits_seq emits_call emits_emit assms)
   apply (simp add: emits_ret)
  apply (auto split: exn.splits intro!: emits_seq emits_error emits_die emits_ret assms)
  done

lemma emits_satellite_coming_online:
  assumes "\<And>t. P (WaitFor t)" and "\<And>r. P (UserGet ''/applications/skypipe0/environment'' r)"
    and "\<And>n r. P (GetHostByName n r)"
    and "\<And>ep ok. P (CheckSkypipeEndpoint ep 120 ok)" and "P FinishSet" and "\<And>m. P (Die m)"
  shows "emits P (satellite_coming_online w)"
  unfolding satellite_coming_online_def
  apply (intro emits_seq emits_wait_for emits_lookup_endpoint emits_check emits_emit assms)
  apply (simp add: emits_ret emits_die assms)
  done

lemma launch_head: "launch_satellite w =
     seq (cli_info ''Launching skypipe satellite:'') (\<lambda>_.
     seq (wait_for ''    Pushing to dotCloud'') (\<lambda>_.
     seq (destroy_satellite w) (\<lambda>_.
     seq (create_application w) (\<lambda>_. after_create w))))"
  by (simp add: launch_satellite_def after_create_def finish_launch_def)

lemma launch_split:
  "launch_satellite w = seq (before_stream w) (\<lambda>(tid, did). finish_launch w tid did)"
  by (simp add: launch_satellite_def before_stream_def finish_launch_def seq_assoc seq_ret
      case_prod_unfold)

lemma emits_finish_launch:
  assumes "P StdoutRedirect" and "P StdoutRestore" and "\<And>a d t r. P (StreamDeployLogs a d t r)"
    and "\<And>m. P (ErrorMsg m)" and "\<And>m. P (Die m)"
    and "\<And>t. P (WaitFor t)" and "\<And>r. P (UserGet ''/applications/skypipe0/environment'' r)"
    and "\<And>n r. P (GetHostByName n r)"
    and "\<And>ep ok. P (CheckSkypipeEndpoint ep 120 ok)" and "P FinishSet"
  shows "emits P (finish_launch w tid did)"
  unfolding finish_launch_def
  apply (intro emits_seq emits_follow_deploy_logs assms)
  apply (simp add: emits_ret emits_satellite_coming_online assms split: option.splits)
  done

lemma emits_after_create:
  assumes "P StdoutRedirect" and "P StdoutRestore" and "\<And>a d t r. P (StreamDeployLogs a d t r)"
    and "\<And>m. P (ErrorMsg m)" and "\<And>m. P (Die m)"
    and "\<And>t. P (WaitFor t)" and "\<And>r. P (UserGet ''/applications/skypipe0/environment'' r)"
    and "\<And>r. P (UserGet ''/applications/skypipe0/push-endpoints'' r)"
    and "\<And>n r. P (GetHostByName n r)"
    and "\<And>ep ok. P (CheckSkypipeEndpoint ep 120 ok)" and "P FinishSet"
    and "\<And>eps p r. P (SelectEndpoint eps p r)" and "\<And>p ep r. P (PushWithRsync p ep r)"
    and "\<And>p r. P (UserPost ''/applications/skypipe0/deployments'' p r)"
  shows "emits P (after_create w)"
  unfolding after_create_def
  apply (intro emits_seq emits_push_satellite_code emits_trigger_deployment assms)
  apply (simp add: case_prod_unfold)
  apply (intro emits_seq emits_wait_for emits_finish_launch assms)
  done

lemma emits_launch_satellite:
  assumes "P StdoutRedirect" and "P StdoutRestore" and "\<And>a d t r. P (StreamDeployLogs a d t r)"
    and "\<And>m. P (ErrorMsg m)" and "\<And>m. P (Die m)"
    and "\<And>t. P (WaitFor t)" and "\<And>r. P (UserGet ''/applications/skypipe0/environment'' r)"
    and "\<And>r. P (UserGet ''/applications/skypipe0/push-endpoints'' r)"
    and "\<And>n r. P (GetHostByName n r)"
    and "\<And>ep ok. P (CheckSkypipeEndpoint ep 120 ok)" and "P FinishSet"
    and "\<And>eps p r. P (SelectEndpoint eps p r)" and "\<And>p ep r. P (PushWithRsync p ep r)"
    and "\<And>p r. P (UserPost ''/applications/skypipe0/deployments'' p r)"
    and "\<And>p r. P (UserPost ''/applications'' p r)" and "\<And>u r. P (UserDelete u r)"
    and "\<And>m. P (Info m)"
  shows "emits P (launch_satellite w)"
  unfolding launch_head
  by (intro emits_seq emits_info emits_wait_for emits_destroy_satellite emits_create_application
      emits_after_create assms)

lemma emits_before_stream:
  assumes "\<And>m. P (Die m)"
    and "\<And>t. P (WaitFor t)" and "\<And>r. P (UserGet ''/applications/skypipe0/push-endpoints'' r)"
    and "\<And>eps p r. P (SelectEndpoint eps p r)" and "\<And>p ep r. P (PushWithRsync p ep r)"
    and "\<And>p r. P (UserPost ''/applications/skypipe0/deployments'' p r)"
    and "\<And>p r. P (UserPost ''/applications'' p r)" and "\<And>u r. P (UserDelete u r)"
    and "\<And>m. P (Info m)"
  shows "emits P (before_stream w)"
  unfolding before_stream_def
  by (intro emits_seq emits_info emits_wait_for emits_destroy_satellite emits_create_application
      emits_push_satellite_code emits_trigger_deployment emits_ret assms)

lemma no_create_after_create: "emits (\<lambda>e. \<not> is_create e) (after_create w)"
  by (rule emits_after_create) (simp_all add: is_create_def)

lemma destroy_run:
  "destroy_satellite w h =
     (case user_delete w h durl of
        Inr res \<Rightarrow> Inr ()
      | Inl e \<Rightarrow> (case e of RESTAPIError code \<Rightarrow> Inr () | _ \<Rightarrow> Inl e),
      [UserDelete durl (user_delete w h durl)])"
  by (simp add: destroy_satellite_def cli_user_delete_def try_except_def seq_def call_def ret_def
      APPNAME_def durl_def split: sum.splits exn.splits)

lemma create_run:
  \<open>create_application w h =
     (case user_post w h ''/applications'' create_payload of
        Inr res \<Rightarrow> (Inr (), [UserPost ''/applications'' create_payload (Inr res)])
      | Inl e \<Rightarrow> (case e of
          RESTAPIError code \<Rightarrow>
            (Inl SystemExit, [UserPost ''/applications'' create_payload (Inl e),
               Die (Some (if code = 409 then ''Application "skypipe0" already exists.''
                          else ''Creating application "skypipe0" failed: '' @ exn_str w e))])
        | _ \<Rightarrow> (Inl e, [UserPost ''/applications'' create_payload (Inl e)])))\<close>
  by (simp add: create_application_def cli_user_post_def cli_die_def try_except_def seq_def call_def
      ret_def emit_def throw_def APPNAME_def create_payload_def split: sum.splits exn.splits)

lemma launch_run:
  "launch_satellite w h =
     (let r1 = user_delete w (h @ launch_intro) durl;
          h1 = h @ launch_intro @ [UserDelete durl r1] in
      if \<not> absorbed r1 then (map_sum id (\<lambda>_. PNone) r1, launch_intro @ [UserDelete durl r1])
      else case create_application w h1 of
             (Inl e, n) \<Rightarrow> (Inl e, launch_intro @ [UserDelete durl r1] @ n)
           | (Inr u, n) \<Rightarrow> (fst (after_create w (h1 @ n)),
                            launch_intro @ [UserDelete durl r1] @ n @ snd (after_create w (h1 @ n))))"
  apply (simp add: launch_head Let_def)
  apply (simp add: seq_def cli_info_def wait_for_def emit_def destroy_run launch_intro_def
      split: sum.splits exn.splits prod.splits)
  done

lemma no_destroy_after_create: "emits (\<lambda>e. \<not> is_destroy e) (after_create w)"
  by (rule emits_after_create) (simp_all add: is_destroy_def)

lemma create_cases:
  obtains (ok) res where "create_application w h =
      (Inr (), [UserPost ''/applications'' create_payload (Inr res)])"
  | (fail) e e' n where "create_application w h =
      (Inl e', UserPost ''/applications'' create_payload (Inl e) # n)"
      "list_all (\<lambda>e. \<not> is_create e \<and> \<not> is_destroy e) n"
proof (cases "user_post w h ''/applications'' create_payload")
  case (Inr res)
  then show thesis using ok by (simp add: create_run)
next
  case (Inl e)
  then show thesis using fail
    by (cases e) (simp_all add: create_run is_create_def is_destroy_def)
qed

lemma launch_shape:
  "\<exists>r1 rest. trace (launch_satellite w) h = launch_intro @ UserDelete durl r1 # rest
     \<and> (rest \<noteq> [] \<longrightarrow> absorbed r1)
     \<and> list_all (\<lambda>e. \<not> is_destroy e) rest
     \<and> list_all (\<lambda>e. \<not> is_create e) (tl rest)
     \<and> (rest \<noteq> [] \<longrightarrow> is_create (hd rest))"
proof -
  define r1 where "r1 = user_delete w (h @ launch_intro) durl"
  define h1 where "h1 = h @ launch_intro @ [UserDelete durl r1]"
  show ?thesis
  proof (cases "absorbed r1")
    case False
    then have "trace (launch_satellite w) h = launch_intro @ UserDelete durl r1 # []"
      by (simp add: trace_def launch_run Let_def r1_def)
    then show ?thesis by auto
  next
    case True
    show ?thesis
    proof (cases rule: create_cases[of w h1])
      case (ok res)
      define n2 where "n2 = snd (after_create w (h1 @ [UserPost ''/applications'' create_payload (Inr res)]))"
      have tr: "trace (launch_satellite w) h = launch_intro @ UserDelete durl r1 #
              (UserPost ''/applications'' create_payload (Inr res) # n2)"
        using True ok by (simp add: trace_def launch_run Let_def r1_def h1_def n2_def)
      have "list_all (\<lambda>e. \<not> is_destroy e) n2" "list_all (\<lambda>e. \<not> is_create e) n2"
        using no_destroy_after_create no_create_after_create unfolding emits_def n2_def by blast+
      then show ?thesis using tr True by (auto simp: is_destroy_def is_create_def)
    next
      case (fail e e' n)
      have tr: "trace (launch_satellite w) h = launch_intro @ UserDelete durl r1 #
              (UserPost ''/applications'' create_payload (Inl e) # n)"
        using True fail by (simp add: trace_def launch_run Let_def r1_def h1_def)
      then show ?thesis using True fail(2) by (auto simp: is_destroy_def is_create_def list_all_iff)
    qed
  qed
qed

section \<open>Destroy comes before create\<close>

text \<open>
  C4. Every run of \<open>launch_satellite\<close> calls \<open>destroy_satellite\<close>, and wherever the run
  posts the new application, an earlier entry of the log is the delete call, finished: it
  either succeeded or raised the \<open>RESTAPIError\<close> that \<open>destroy_satellite\<close> absorbs. This
  holds whatever the platform answers to the delete.
\<close>

theorem destroy_before_create:
  "(\<exists>i < length (trace (launch_satellite w) h). is_destroy (trace (launch_satellite w) h ! i)) \<and>
   (\<forall>j < length (trace (launch_satellite w) h). is_create (trace (launch_satellite w) h ! j) \<longrightarrow>
      (\<exists>i < j. destroy_done (trace (launch_satellite w) h ! i)))"
proof -
  obtain r1 rest where tr: "trace (launch_satellite w) h = launch_intro @ UserDelete durl r1 # rest"
    and ab: "rest \<noteq> [] \<longrightarrow> absorbed r1"
    using launch_shape by blast
  have d: "is_destroy (trace (launch_satellite w) h ! 2)"
    by (simp add: tr launch_intro_def is_destroy_def)
  have len: "2 < length (trace (launch_satellite w) h)"
    by (simp add: tr launch_intro_def)
  have c: "\<exists>i < j. destroy_done (trace (launch_satellite w) h ! i)"
    if "j < length (trace (launch_satellite w) h)" "is_create (trace (launch_satellite w) h ! j)" for j
  proof -
    have "\<not> is_create (trace (launch_satellite w) h ! 0)"
      "\<not> is_create (trace (launch_satellite w) h ! 1)"
      "\<not> is_create (trace (launch_satellite w) h ! 2)"
      by (simp_all add: tr launch_intro_def is_create_def nth_Cons')
    then have "j \<noteq> 0" "j \<noteq> 1" "j \<noteq> 2"
      using that(2) by (metis, metis, metis)
    then have j: "2 < j" by arith
    then have "rest \<noteq> []" using that(1) by (auto simp: tr launch_intro_def)
    then have "destroy_done (trace (launch_satellite w) h ! 2)"
      using ab by (simp add: tr launch_intro_def destroy_done_def durl_def)
    then show ?thesis using j by blast
  qed
  show ?thesis using d len c by blast
qed

section \<open>An application that already exists\<close>

text \<open>
  C7. When the create call fails with code 409, \<open>launch_satellite\<close> ends by \<open>cli.die\<close>
  with the message that the application already exists; the log of the run is the
  announcement, the delete, the failed create and the die, so no push, deployment, log
  stream or probe is made.
\<close>

theorem create_conflict_is_fatal:
  assumes "UserPost ''/applications'' p (Inl (RESTAPIError 409)) \<in> set (trace (launch_satellite w) h)"
  shows \<open>outcome (launch_satellite w) h = Inl SystemExit \<and>
     (\<exists>r. trace (launch_satellite w) h =
        [Info ''Launching skypipe satellite:'', WaitFor ''    Pushing to dotCloud'',
         UserDelete ''/applications/skypipe0'' r,
         UserPost ''/applications'' [(''name'', PStr ''skypipe0''), (''flavor'', PStr ''sandbox'')]
           (Inl (RESTAPIError 409)),
         Die (Some ''Application "skypipe0" already exists.'')])\<close>
proof -
  define r1 where "r1 = user_delete w (h @ launch_intro) durl"
  define h1 where "h1 = h @ launch_intro @ [UserDelete durl r1]"
  define r2 where "r2 = user_post w h1 ''/applications'' create_payload"
  let ?e = "UserPost ''/applications'' p (Inl (RESTAPIError 409))"
  have ab: "absorbed r1"
  proof (rule ccontr)
    assume "\<not> absorbed r1"
    then have "trace (launch_satellite w) h = launch_intro @ [UserDelete durl r1]"
      by (simp add: trace_def launch_run Let_def r1_def)
    then show False using assms by (auto simp: launch_intro_def)
  qed
  have r2: "r2 = Inl (RESTAPIError 409)"
  proof (cases r2)
    case (Inr res)
    define n2 where "n2 = snd (after_create w (h1 @ [UserPost ''/applications'' create_payload (Inr res)]))"
    have "trace (launch_satellite w) h = launch_intro @ UserDelete durl r1 #
              UserPost ''/applications'' create_payload (Inr res) # n2"
      using ab Inr
      by (simp add: trace_def launch_run Let_def create_run r1_def[symmetric] h1_def[symmetric]
          r2_def[symmetric] n2_def)
    moreover have "list_all (\<lambda>e. \<not> is_create e) n2"
      using no_create_after_create unfolding emits_def n2_def by blast
    ultimately show ?thesis using assms by (auto simp: launch_intro_def list_all_iff is_create_def)
  next
    case (Inl e)
    then have "set (trace (launch_satellite w) h) \<subseteq>
       set launch_intro \<union> {UserDelete durl r1, UserPost ''/applications'' create_payload r2} \<union> range Die"
      using ab
      by (auto simp: trace_def launch_run Let_def create_run r1_def[symmetric] h1_def[symmetric]
          r2_def[symmetric] split: exn.splits)
    then show ?thesis using assms by (auto simp: launch_intro_def)
  qed
  have run: \<open>launch_satellite w h = (Inl SystemExit, launch_intro @
      [UserDelete durl r1, UserPost ''/applications'' create_payload (Inl (RESTAPIError 409)),
       Die (Some ''Application "skypipe0" already exists.'')])\<close>
    using ab r2
    by (simp add: launch_run Let_def create_run r1_def[symmetric] h1_def[symmetric]
        r2_def[symmetric])
  show ?thesis
    by (simp add: run trace_def outcome_def launch_intro_def durl_def create_payload_def)
qed

section \<open>The log stream and what follows it\<close>

lemma follow_run:
  "follow_deploy_logs w did tid h =
     (let r = stream_deploy_logs w (h @ [StdoutRedirect]) ''skypipe0'' did tid;
          ev = StreamDeployLogs ''skypipe0'' did tid r in
      case r of
        Inr res \<Rightarrow> (Inr (if res \<noteq> 0 then Some (PInt res) else None),
                    [StdoutRedirect, ev, StdoutRestore])
      | Inl e \<Rightarrow> (case e of
          KeyboardInterrupt \<Rightarrow>
            (Inl SystemExit, [StdoutRedirect, ev] @ interrupt_messages w did tid @ [StdoutRestore])
        | RuntimeError \<Rightarrow> (Inr None, [StdoutRedirect, ev, StdoutRestore])
        | _ \<Rightarrow> (Inl e, [StdoutRedirect, ev, StdoutRestore])))"
  by (simp add: follow_deploy_logs_def cli_stream_deploy_logs_def cli_error_def cli_die_def
      ensure_def try_except_def seq_def call_def ret_def emit_def throw_def APPNAME_def Let_def
      interrupt_messages_def split: sum.splits exn.splits)

lemma no_stream_online: "emits (\<lambda>e. \<not> is_stream e) (satellite_coming_online w)"
  by (rule emits_satellite_coming_online) (simp_all add: is_stream_def)

lemma quiet_before_stream:
  "emits (\<lambda>e. \<not> is_stream e \<and> \<not> is_probe e \<and> \<not> is_env_lookup e) (before_stream w)"
  by (rule emits_before_stream) (simp_all add: is_stream_def is_probe_def is_env_lookup_def)

text \<open>A run whose log holds a call of the log stream got as far as that call.\<close>

lemma launch_reaches_stream:
  assumes "e \<in> set (trace (launch_satellite w) h)" and "is_stream e \<or> is_probe e \<or> is_env_lookup e"
  obtains tid did pre where "before_stream w h = (Inr (tid, did), pre)"
    and "list_all (\<lambda>e. \<not> is_stream e \<and> \<not> is_probe e \<and> \<not> is_env_lookup e) pre"
    and "launch_satellite w h =
           (fst (finish_launch w tid did (h @ pre)), pre @ snd (finish_launch w tid did (h @ pre)))"
    and "e \<in> set (snd (finish_launch w tid did (h @ pre)))"
proof -
  have m: "e \<in> set (snd (seq (before_stream w) (\<lambda>(tid, did). finish_launch w tid did) h))"
    using assms(1) by (simp add: trace_def launch_split)
  have ne: "\<not> (\<not> is_stream e \<and> \<not> is_probe e \<and> \<not> is_env_lookup e)"
    using assms(2) by blast
  obtain x pre where b: "before_stream w h = (Inr x, pre)"
    and q: "list_all (\<lambda>e. \<not> is_stream e \<and> \<not> is_probe e \<and> \<not> is_env_lookup e) pre"
    and r: "e \<in> set (snd ((\<lambda>(tid, did). finish_launch w tid did) x (h @ pre)))"
    using seq_reach [of _ "before_stream w" e "\<lambda>(tid, did). finish_launch w tid did" h]
      quiet_before_stream [of w] ne m by blast
  obtain tid did where x: "x = (tid, did)" by (cases x)
  have "launch_satellite w h =
      (fst (finish_launch w tid did (h @ pre)), pre @ snd (finish_launch w tid did (h @ pre)))"
    using seq_Inr [of "before_stream w" h x pre "\<lambda>(tid, did). finish_launch w tid did"] b
    by (simp add: launch_split x)
  then show thesis using that b q r x by simp
qed

lemma finish_run:
  "finish_launch w tid did h =
     (case follow_deploy_logs w did tid h of
        (Inl e, n) \<Rightarrow> (Inl e, n)
      | (Inr early, n) \<Rightarrow> (case early of
          Some v \<Rightarrow> (Inr v, n)
        | None \<Rightarrow> (fst (satellite_coming_online w (h @ n)),
                   n @ snd (satellite_coming_online w (h @ n)))))"
  by (simp add: finish_launch_def seq_def ret_def split: prod.splits sum.splits option.splits)

lemma finish_cases:
  fixes w h did tid
  defines "r \<equiv> stream_deploy_logs w (h @ [StdoutRedirect]) ''skypipe0'' did tid"
  defines "ev \<equiv> stream_event w h did tid"
  obtains (failed) rc where "r = Inr rc" "rc \<noteq> 0"
      "finish_launch w tid did h = (Inr (PInt rc), [StdoutRedirect, ev, StdoutRestore])"
  | (online) "r = Inr 0 \<or> r = Inl RuntimeError"
      "finish_launch w tid did h =
         (fst (satellite_coming_online w (h @ [StdoutRedirect, ev, StdoutRestore])),
          [StdoutRedirect, ev, StdoutRestore]
            @ snd (satellite_coming_online w (h @ [StdoutRedirect, ev, StdoutRestore])))"
  | (interrupted) "r = Inl KeyboardInterrupt"
      "finish_launch w tid did h =
         (Inl SystemExit, [StdoutRedirect, ev] @ interrupt_messages w did tid @ [StdoutRestore])"
  | (raised) e where "r = Inl e" "e \<noteq> KeyboardInterrupt" "e \<noteq> RuntimeError"
      "finish_launch w tid did h = (Inl e, [StdoutRedirect, ev, StdoutRestore])"
proof (cases r)
  case (Inr rc)
  show thesis
  proof (cases "rc = 0")
    case True
    then show thesis using online Inr
      by (simp add: finish_run follow_run r_def[symmetric] ev_def stream_event_def)
  next
    case False
    then show thesis using failed [of rc] Inr
      by (simp add: finish_run follow_run r_def[symmetric] ev_def stream_event_def)
  qed
next
  case (Inl e)
  show thesis
  proof (cases e)
    case KeyboardInterrupt
    then show thesis using interrupted Inl
      by (simp add: finish_run follow_run r_def[symmetric] ev_def stream_event_def)
  next
    case RuntimeError
    then show thesis using online Inl
      by (simp add: finish_run follow_run r_def[symmetric] ev_def stream_event_def)
  qed (use raised [of e] Inl in
        \<open>simp_all add: finish_run follow_run r_def[symmetric] ev_def stream_event_def\<close>)
qed

lemma interrupt_messages_quiet:
  "list_all (\<lambda>e. \<not> is_stream e \<and> \<not> is_probe e \<and> \<not> is_env_lookup e) (interrupt_messages w did tid)"
  by (simp add: interrupt_messages_def is_stream_def is_probe_def is_env_lookup_def)

section \<open>A deployment that fails\<close>

text \<open>
  What the code does when the log stream returns a nonzero exit code: the \<open>return res\<close> of
  the \<open>try\<close> block ends \<open>launch_satellite\<close> with that exit code as its value, the standard
  output is restored, and the run holds no environment lookup and no probe.
\<close>

lemma nonzero_log_stream_run:
  assumes "StreamDeployLogs app did tid (Inr rc) \<in> set (trace (launch_satellite w) h)"
    and "rc \<noteq> 0"
  shows "outcome (launch_satellite w) h = Inr (PInt rc)
    \<and> (\<exists>pre. trace (launch_satellite w) h = pre @ [StreamDeployLogs app did tid (Inr rc), StdoutRestore])
    \<and> list_all (\<lambda>e. \<not> is_probe e \<and> \<not> is_env_lookup e) (trace (launch_satellite w) h)"
proof -
  let ?e = "StreamDeployLogs app did tid (Inr rc)"
  have s: "is_stream ?e \<or> is_probe ?e \<or> is_env_lookup ?e" by (simp add: is_stream_def)
  obtain tid' did' pre where q: "list_all (\<lambda>e. \<not> is_stream e \<and> \<not> is_probe e \<and> \<not> is_env_lookup e) pre"
    and run: "launch_satellite w h =
           (fst (finish_launch w tid' did' (h @ pre)), pre @ snd (finish_launch w tid' did' (h @ pre)))"
    and m: "?e \<in> set (snd (finish_launch w tid' did' (h @ pre)))"
    by (rule launch_reaches_stream [OF assms(1) s])
  show ?thesis
  proof (cases rule: finish_cases [of w "h @ pre" did' tid'])
    case (failed rc')
    then have "?e = stream_event w (h @ pre) did' tid'" using m by auto
    then have ev: "stream_event w (h @ pre) did' tid' = ?e" and rc: "rc' = rc"
      using failed(1) by (simp_all add: stream_event_def)
    have "launch_satellite w h = (Inr (PInt rc), (pre @ [StdoutRedirect]) @ [?e, StdoutRestore])"
      using run failed(3) ev rc by simp
    then show ?thesis using q
      by (auto simp: outcome_def trace_def list_all_iff is_probe_def is_env_lookup_def)
  next
    case online
    have "list_all (\<lambda>e. \<not> is_stream e) (snd (satellite_coming_online w
            (h @ pre @ [StdoutRedirect, stream_event w (h @ pre) did' tid', StdoutRestore])))"
      using no_stream_online unfolding emits_def by blast
    then have "?e = stream_event w (h @ pre) did' tid'"
      using m online(2) by (auto simp: list_all_iff is_stream_def)
    then show ?thesis using online(1) assms(2) by (auto simp: stream_event_def)
  next
    case interrupted
    then have "?e = stream_event w (h @ pre) did' tid'"
      using m interrupt_messages_quiet [of w did' tid'] by (auto simp: list_all_iff is_stream_def)
    then show ?thesis using interrupted(1) by (simp add: stream_event_def)
  next
    case (raised e)
    then have "?e = stream_event w (h @ pre) did' tid'" using m by auto
    then show ?thesis using raised(1) by (simp add: stream_event_def)
  qed
qed

lemma lookup_run:
  "lookup_endpoint w h =
     (case user_get w h env_url of
        Inl e \<Rightarrow> (Inl e, [UserGet env_url (Inl e)])
      | Inr resp \<Rightarrow>
          (case map_of (item resp) ''DOTCLOUD_SATELLITE_ZMQ_PORT'' of
             None \<Rightarrow> (Inl (KeyError ''DOTCLOUD_SATELLITE_ZMQ_PORT''), [UserGet env_url (Inr resp)])
           | Some port \<Rightarrow>
               (case map_of (item resp) ''DOTCLOUD_SATELLITE_ZMQ_HOST'' of
                  None \<Rightarrow> (Inl (KeyError ''DOTCLOUD_SATELLITE_ZMQ_HOST''),
                            [UserGet env_url (Inr resp)])
                | Some hostname \<Rightarrow>
                    (case gethostbyname w (h @ [UserGet env_url (Inr resp)]) hostname of
                       Inl e \<Rightarrow> (Inl e, [UserGet env_url (Inr resp),
                                           GetHostByName hostname (Inl e)])
                     | Inr host \<Rightarrow> (Inr (''tcp://'' @ host @ '':'' @ port),
                           [UserGet env_url (Inr resp), GetHostByName hostname (Inr host)])))))"
  by (simp add: lookup_endpoint_def cli_user_get_def socket_gethostbyname_def getitem_def
      seq_def call_def ret_def throw_def APPNAME_def env_url_def
      split: sum.splits option.splits)

lemma lookup_first:
  "\<exists>rest. snd (lookup_endpoint w h) =
     UserGet ''/applications/skypipe0/environment''
       (user_get w h ''/applications/skypipe0/environment'') # rest"
  by (simp add: lookup_run env_url_def split: sum.splits option.splits)

lemma online_run:
  "satellite_coming_online w h =
     (case lookup_endpoint w (h @ [online_wait]) of
        (Inl e, n) \<Rightarrow> (Inl e, online_wait # n)
      | (Inr ep, n) \<Rightarrow>
          (if probe w (h @ online_wait # n) ep 120
           then (Inr (PStr ep), online_wait # n @ [CheckSkypipeEndpoint ep 120 True, FinishSet])
           else (Inl SystemExit, online_wait # n @ [CheckSkypipeEndpoint ep 120 False, FinishSet,
                   Die (Some ''Satellite failed to come online'')])))"
  by (simp add: satellite_coming_online_def wait_for_def check_skypipe_endpoint_def cli_die_def
      seq_def emit_def ret_def throw_def online_wait_def split: prod.splits sum.splits)

lemma no_probe_lookup: "emits (\<lambda>e. \<not> is_probe e) (lookup_endpoint w)"
  by (rule emits_lookup_endpoint) (simp_all add: is_probe_def)

section \<open>A log stream that raises RuntimeError\<close>

text \<open>
  C9. A \<open>RuntimeError\<close> raised by the log stream is swallowed, and the run goes on exactly
  as after exit code zero. In both cases what follows the stream call in the log is the
  restoring of the standard output, the announcement "Satellite coming online" and the
  environment lookup, which starts with the GET of the application's environment. If the
  lookup raises, \<open>launch_satellite\<close> raises the same; otherwise the endpoint is probed with
  timeout 120, and \<open>launch_satellite\<close> returns the endpoint when the probe succeeds and ends
  by \<open>cli.die\<close> when it fails.
\<close>

theorem runtime_error_in_log_stream_is_suppressed:
  assumes "StreamDeployLogs app did tid r \<in> set (trace (launch_satellite w) h)"
    and "r = Inl RuntimeError \<or> r = Inr 0"
  shows "\<exists>pre h2 n.
      h2 = h @ pre @ [StreamDeployLogs app did tid r, StdoutRestore,
                      WaitFor ''    Satellite coming online'']
    \<and> n = trace (lookup_endpoint w) h2
    \<and> (\<exists>rest. n = UserGet ''/applications/skypipe0/environment''
                      (user_get w h2 ''/applications/skypipe0/environment'') # rest)
    \<and> (case outcome (lookup_endpoint w) h2 of
          Inl e \<Rightarrow>
            outcome (launch_satellite w) h = Inl e
            \<and> trace (launch_satellite w) h =
                pre @ [StreamDeployLogs app did tid r, StdoutRestore,
                       WaitFor ''    Satellite coming online''] @ n
        | Inr ep \<Rightarrow>
            if probe w (h2 @ n) ep 120
            then outcome (launch_satellite w) h = Inr (PStr ep)
              \<and> trace (launch_satellite w) h =
                  pre @ [StreamDeployLogs app did tid r, StdoutRestore,
                         WaitFor ''    Satellite coming online''] @ n
                    @ [CheckSkypipeEndpoint ep 120 True, FinishSet]
            else outcome (launch_satellite w) h = Inl SystemExit
              \<and> trace (launch_satellite w) h =
                  pre @ [StreamDeployLogs app did tid r, StdoutRestore,
                         WaitFor ''    Satellite coming online''] @ n
                    @ [CheckSkypipeEndpoint ep 120 False, FinishSet,
                       Die (Some ''Satellite failed to come online'')])"
proof -
  let ?e = "StreamDeployLogs app did tid r"
  have s: "is_stream ?e \<or> is_probe ?e \<or> is_env_lookup ?e" by (simp add: is_stream_def)
  obtain tid' did' pre where
    run: "launch_satellite w h =
           (fst (finish_launch w tid' did' (h @ pre)), pre @ snd (finish_launch w tid' did' (h @ pre)))"
    and m: "?e \<in> set (snd (finish_launch w tid' did' (h @ pre)))"
    by (rule launch_reaches_stream [OF assms(1) s])
  have fin: "stream_event w (h @ pre) did' tid' = ?e \<and>
      finish_launch w tid' did' (h @ pre) =
         (fst (satellite_coming_online w (h @ pre @ [StdoutRedirect, ?e, StdoutRestore])),
          [StdoutRedirect, ?e, StdoutRestore]
            @ snd (satellite_coming_online w (h @ pre @ [StdoutRedirect, ?e, StdoutRestore])))"
  proof (cases rule: finish_cases [of w "h @ pre" did' tid'])
    case (failed rc')
    then have "?e = stream_event w (h @ pre) did' tid'" using m by auto
    then show ?thesis using failed(1,2) assms(2) by (auto simp: stream_event_def)
  next
    case online
    have "list_all (\<lambda>e. \<not> is_stream e) (snd (satellite_coming_online w
            (h @ pre @ [StdoutRedirect, stream_event w (h @ pre) did' tid', StdoutRestore])))"
      using no_stream_online unfolding emits_def by blast
    then have "?e = stream_event w (h @ pre) did' tid'"
      using m online(2) by (auto simp: list_all_iff is_stream_def)
    then show ?thesis using online(2) by simp
  next
    case interrupted
    then have "?e = stream_event w (h @ pre) did' tid'"
      using m interrupt_messages_quiet [of w did' tid'] by (auto simp: list_all_iff is_stream_def)
    then show ?thesis using interrupted(1) assms(2) by (auto simp: stream_event_def)
  next
    case (raised e)
    then have "?e = stream_event w (h @ pre) did' tid'" using m by auto
    then show ?thesis using raised(1,3) assms(2) by (auto simp: stream_event_def)
  qed
  define pre2 where "pre2 = pre @ [StdoutRedirect]"
  define h2 where "h2 = h @ pre2 @ [?e, StdoutRestore, WaitFor ''    Satellite coming online'']"
  define n where "n = trace (lookup_endpoint w) h2"
  have h1: "h @ pre @ [StdoutRedirect, ?e, StdoutRestore] = h @ pre2 @ [?e, StdoutRestore]"
    by (simp add: pre2_def)
  have h2': "h @ pre2 @ [?e, StdoutRestore, WaitFor ''    Satellite coming online''] = h2"
    by (simp add: h2_def)
  have h3: "h @ pre2 @ ?e # StdoutRestore # WaitFor ''    Satellite coming online'' # n = h2 @ n"
    by (simp add: h2_def)
  have launch: "launch_satellite w h =
      (fst (satellite_coming_online w (h @ pre2 @ [?e, StdoutRestore])),
       pre2 @ [?e, StdoutRestore] @ snd (satellite_coming_online w (h @ pre2 @ [?e, StdoutRestore])))"
    using run fin by (simp add: pre2_def)
  obtain lr where lk: "lookup_endpoint w h2 = (lr, n)"
    by (cases "lookup_endpoint w h2") (simp add: n_def trace_def)
  have first: "\<exists>rest. n = UserGet ''/applications/skypipe0/environment''
                      (user_get w h2 ''/applications/skypipe0/environment'') # rest"
    using lookup_first [of w h2] lk by simp
  have body: "case outcome (lookup_endpoint w) h2 of
          Inl e \<Rightarrow>
            outcome (launch_satellite w) h = Inl e
            \<and> trace (launch_satellite w) h =
                pre2 @ [?e, StdoutRestore, WaitFor ''    Satellite coming online''] @ n
        | Inr ep \<Rightarrow>
            if probe w (h2 @ n) ep 120
            then outcome (launch_satellite w) h = Inr (PStr ep)
              \<and> trace (launch_satellite w) h =
                  pre2 @ [?e, StdoutRestore, WaitFor ''    Satellite coming online''] @ n
                    @ [CheckSkypipeEndpoint ep 120 True, FinishSet]
            else outcome (launch_satellite w) h = Inl SystemExit
              \<and> trace (launch_satellite w) h =
                  pre2 @ [?e, StdoutRestore, WaitFor ''    Satellite coming online''] @ n
                    @ [CheckSkypipeEndpoint ep 120 False, FinishSet,
                       Die (Some ''Satellite failed to come online'')]"
    by (cases lr)
       (simp_all add: outcome_def trace_def launch online_run online_wait_def h2' h3 lk)
  show ?thesis
    using h2_def n_def first body by blast
qed

section \<open>A satellite that never comes online\<close>

lemma launch_counts:
  assumes "e \<in> set (trace (launch_satellite w) h)" and "is_probe e"
  shows "length (filter is_destroy (trace (launch_satellite w) h)) = 1
       \<and> length (filter is_create (trace (launch_satellite w) h)) = 1"
proof -
  obtain r1 rest where tr: "trace (launch_satellite w) h = launch_intro @ UserDelete durl r1 # rest"
    and nd: "list_all (\<lambda>e. \<not> is_destroy e) rest"
    and nc: "list_all (\<lambda>e. \<not> is_create e) (tl rest)"
    and c: "rest \<noteq> [] \<longrightarrow> is_create (hd rest)"
    using launch_shape by blast
  have "e \<in> set rest"
    using assms by (auto simp: tr launch_intro_def is_probe_def)
  then obtain x xs where rest: "rest = x # xs" by (cases rest) auto
  have d: "filter is_destroy rest = []" using nd by (simp add: list_all_iff filter_empty_conv)
  have "filter is_create xs = []" using nc rest by (simp add: list_all_iff filter_empty_conv)
  then have cr: "filter is_create rest = [x]" using c rest by simp
  show ?thesis
    using d cr by (simp add: tr launch_intro_def is_destroy_def is_create_def)
qed

text \<open>
  C6. When the probe after the deployment, with its timeout of 120, fails,
  \<open>launch_satellite\<close> ends by \<open>cli.die\<close> with "Satellite failed to come online":
  nothing follows the failed probe but the stopping of the progress dots and the die, and
  the whole run holds one delete and one create.
\<close>

theorem failed_final_probe_is_fatal:
  assumes "CheckSkypipeEndpoint ep 120 False \<in> set (trace (launch_satellite w) h)"
  shows "outcome (launch_satellite w) h = Inl SystemExit
    \<and> (\<exists>pre. trace (launch_satellite w) h =
          pre @ [CheckSkypipeEndpoint ep 120 False, FinishSet,
                 Die (Some ''Satellite failed to come online'')])
    \<and> length (filter is_destroy (trace (launch_satellite w) h)) = 1
    \<and> length (filter is_create (trace (launch_satellite w) h)) = 1"
proof -
  let ?e = "CheckSkypipeEndpoint ep 120 False"
  have p: "is_probe ?e" by (simp add: is_probe_def)
  then have s: "is_stream ?e \<or> is_probe ?e \<or> is_env_lookup ?e" by simp
  obtain tid' did' pre where
    run: "launch_satellite w h =
           (fst (finish_launch w tid' did' (h @ pre)), pre @ snd (finish_launch w tid' did' (h @ pre)))"
    and m: "?e \<in> set (snd (finish_launch w tid' did' (h @ pre)))"
    by (rule launch_reaches_stream [OF assms s])
  define h2 where "h2 = h @ pre @ [StdoutRedirect, stream_event w (h @ pre) did' tid', StdoutRestore]"
  have fin: "finish_launch w tid' did' (h @ pre) =
         (fst (satellite_coming_online w h2),
          [StdoutRedirect, stream_event w (h @ pre) did' tid', StdoutRestore]
            @ snd (satellite_coming_online w h2))"
  proof (cases rule: finish_cases [of w "h @ pre" did' tid'])
    case (failed rc')
    then show ?thesis using m by (auto simp: stream_event_def)
  next
    case online
    then show ?thesis by (simp add: h2_def)
  next
    case interrupted
    then show ?thesis
      using m interrupt_messages_quiet [of w did' tid']
      by (auto simp: list_all_iff is_probe_def stream_event_def)
  next
    case (raised e)
    then show ?thesis using m by (auto simp: stream_event_def)
  qed
  have mo: "?e \<in> set (snd (satellite_coming_online w h2))"
    using m fin by (auto simp: stream_event_def)
  obtain lr n where lk: "lookup_endpoint w (h2 @ [online_wait]) = (lr, n)"
    by (cases "lookup_endpoint w (h2 @ [online_wait])")
  have nq: "list_all (\<lambda>e. \<not> is_probe e) n"
    using no_probe_lookup lk unfolding emits_def by (metis snd_conv)
  then have notin: "?e \<notin> set n" using p by (auto simp: list_all_iff)
  have on: "satellite_coming_online w h2 =
       (Inl SystemExit, (online_wait # n) @ [?e, FinishSet,
           Die (Some ''Satellite failed to come online'')])"
  proof (cases lr)
    case (Inl ex)
    then show ?thesis using mo lk notin by (simp add: online_run online_wait_def)
  next
    case (Inr ep')
    then show ?thesis using mo lk notin
      by (auto simp: online_run online_wait_def split: if_splits)
  qed
  have "launch_satellite w h = (Inl SystemExit,
      (pre @ [StdoutRedirect, stream_event w (h @ pre) did' tid', StdoutRestore] @ online_wait # n)
        @ [?e, FinishSet, Die (Some ''Satellite failed to come online'')])"
    using run fin on by simp
  then have "outcome (launch_satellite w) h = Inl SystemExit"
    and "\<exists>pre. trace (launch_satellite w) h =
          pre @ [?e, FinishSet, Die (Some ''Satellite failed to come online'')]"
    unfolding outcome_def trace_def by (simp, metis snd_conv)
  then show ?thesis using launch_counts [OF assms p] by blast
qed

section \<open>Discovery\<close>

lemma discover_unfold:
  "discover_satellite w deploy t =
     seq (if \<not> global_config_loaded w
          then cli_die (Some ''Please setup skypipe by running `skypipe --setup`'')
          else ret ()) (\<lambda>_.
     try_except
       (seq (lookup_endpoint w) (\<lambda>endpoint.
        seq (check_skypipe_endpoint w endpoint t) (\<lambda>ok.
        if ok then ret (PStr endpoint)
        else (if deploy then launch_satellite w else ret PNone))))
       (discover_handler w deploy))"
  unfolding discover_satellite_def discover_handler_def by (rule refl)

lemma discover_not_loaded:
  "\<not> global_config_loaded w \<Longrightarrow> discover_satellite w deploy t h =
     (Inl SystemExit, [Die (Some ''Please setup skypipe by running `skypipe --setup`'')])"
  by (simp add: discover_unfold cli_die_def seq_def emit_def throw_def)

lemma discover_lookup_failed:
  assumes "global_config_loaded w" and "lookup_endpoint w h = (Inl e, n)"
  shows "discover_satellite w deploy t h =
     (if caught e
      then (if deploy
            then (fst (launch_satellite w (h @ n)), n @ snd (launch_satellite w (h @ n)))
            else (Inr PNone, n))
      else (Inl e, n))"
  using assms
  by (cases e)
     (simp_all add: discover_unfold discover_handler_def caught_def seq_def try_except_def ret_def
       split: prod.splits)

lemma discover_lookup_ok:
  assumes "global_config_loaded w" and "lookup_endpoint w h = (Inr ep, n)"
  shows "discover_satellite w deploy t h =
     (if probe w (h @ n) ep t
      then (Inr (PStr ep), n @ [CheckSkypipeEndpoint ep t True])
      else if deploy
      then (fst (try_except (launch_satellite w) (discover_handler w True)
                   (h @ n @ [CheckSkypipeEndpoint ep t False])),
            n @ CheckSkypipeEndpoint ep t False #
              snd (try_except (launch_satellite w) (discover_handler w True)
                   (h @ n @ [CheckSkypipeEndpoint ep t False])))
      else (Inr PNone, n @ [CheckSkypipeEndpoint ep t False]))"
proof -
  have 1: "try_except (ret v) hd k = (Inr v, [])" for v :: pyval and hd k
    by (simp add: try_except_def ret_def)
  have 2: "try_except (seq m f) hd k =
      (case m k of
         (Inr x, n1) \<Rightarrow> (case try_except (f x) hd (k @ n1) of (r, n2) \<Rightarrow> (r, n1 @ n2))
       | (Inl e, n1) \<Rightarrow> try_except (\<lambda>_. (Inl e, n1)) hd k)"
    for m :: "'a comp" and f :: "'a \<Rightarrow> pyval comp" and hd k
    by (simp add: try_except_def seq_def split: prod.splits sum.splits option.splits)
  show ?thesis
    using assms
    by (simp add: discover_unfold 1 2 check_skypipe_endpoint_def seq_def [of "ret ()"] ret_def [of "()"]
        split: prod.splits)
qed





text \<open>
  C5. When the environment holds host 10.0.0.5 and port 9000, the host resolves to itself
  and the probe of \<open>tcp://10.0.0.5:9000\<close> succeeds, \<open>discover_satellite\<close> returns that
  endpoint, and its log is the lookup, the name resolution and the probe: no delete,
  create, push or deployment.
\<close>

theorem healthy_satellite_is_returned:
  assumes "global_config_loaded w"
    and "user_get w h ''/applications/skypipe0/environment'' = Inr resp"
    and "map_of (item resp) ''DOTCLOUD_SATELLITE_ZMQ_HOST'' = Some ''10.0.0.5''"
    and "map_of (item resp) ''DOTCLOUD_SATELLITE_ZMQ_PORT'' = Some ''9000''"
    and "gethostbyname w (h @ [UserGet ''/applications/skypipe0/environment'' (Inr resp)])
           ''10.0.0.5'' = Inr ''10.0.0.5''"
    and "probe w (h @ [UserGet ''/applications/skypipe0/environment'' (Inr resp),
                       GetHostByName ''10.0.0.5'' (Inr ''10.0.0.5'')])
           ''tcp://10.0.0.5:9000'' timeout"
  shows "outcome (discover_satellite w deploy timeout) h = Inr (PStr ''tcp://10.0.0.5:9000'')
    \<and> trace (discover_satellite w deploy timeout) h =
        [UserGet ''/applications/skypipe0/environment'' (Inr resp),
         GetHostByName ''10.0.0.5'' (Inr ''10.0.0.5''),
         CheckSkypipeEndpoint ''tcp://10.0.0.5:9000'' timeout True]
    \<and> list_all (\<lambda>e. \<not> mutating e) (trace (discover_satellite w deploy timeout) h)"
proof -
  have lk: "lookup_endpoint w h = (Inr ''tcp://10.0.0.5:9000'',
      [UserGet env_url (Inr resp), GetHostByName ''10.0.0.5'' (Inr ''10.0.0.5'')])"
    using assms(2-5) by (simp add: lookup_run env_url_def)
  have "discover_satellite w deploy timeout h = (Inr (PStr ''tcp://10.0.0.5:9000''),
      [UserGet env_url (Inr resp), GetHostByName ''10.0.0.5'' (Inr ''10.0.0.5''),
       CheckSkypipeEndpoint ''tcp://10.0.0.5:9000'' timeout True])"
    using assms(6) by (simp add: discover_lookup_ok [OF assms(1) lk] env_url_def)
  then show ?thesis
    by (simp add: outcome_def trace_def env_url_def mutating_def)
qed

section \<open>The two timeouts of the probe\<close>

lemma launch_probes_120: "emits (probe_timeout_is 120) (launch_satellite w)"
  by (rule emits_launch_satellite) (simp_all add: probe_timeout_is_def)

lemma retry_probes_120:
  "emits (probe_timeout_is 120) (try_except (launch_satellite w) (discover_handler w True))"
  by (rule emits_try_except [OF launch_probes_120])
     (auto simp: discover_handler_def launch_probes_120 split: exn.splits)

lemma discover_first_probe:
  assumes "global_config_loaded w" and "lookup_endpoint w h = (Inr ep, n)"
  shows "\<exists>rest. trace (discover_satellite w deploy t) h =
            n @ CheckSkypipeEndpoint ep t (probe w (h @ n) ep t) # rest
          \<and> list_all (probe_timeout_is 120) rest"
proof -
  have "list_all (probe_timeout_is 120)
      (snd (try_except (launch_satellite w) (discover_handler w True)
              (h @ n @ [CheckSkypipeEndpoint ep t False])))"
    using retry_probes_120 unfolding emits_def by blast
  then show ?thesis
    by (simp add: trace_def discover_lookup_ok [OF assms])
qed

text \<open>
  C8. The timeout is an argument of the probe. Every probe made by \<open>launch_satellite\<close>
  has timeout 120. The probe that \<open>discover_satellite\<close> makes after a lookup that succeeded
  has the timeout of its caller, and 5 when the caller gives none; whatever probes follow
  it in the same call have 120. The two values differ.
\<close>

theorem probe_timeouts:
  assumes "global_config_loaded w" and "lookup_endpoint w h = (Inr ep, n)"
  shows "list_all (probe_timeout_is 120) (trace (launch_satellite w) h')
    \<and> (\<exists>rest. trace (discover_satellite_call w deploy (Some t)) h =
            n @ CheckSkypipeEndpoint ep t (probe w (h @ n) ep t) # rest
          \<and> list_all (probe_timeout_is 120) rest)
    \<and> (\<exists>rest. trace (discover_satellite_call w deploy None) h =
            n @ CheckSkypipeEndpoint ep 5 (probe w (h @ n) ep 5) # rest
          \<and> list_all (probe_timeout_is 120) rest)
    \<and> (5::int) \<noteq> 120"
proof -
  have a: "list_all (probe_timeout_is 120) (trace (launch_satellite w) h')"
    using launch_probes_120 unfolding emits_def trace_def by blast
  show ?thesis
    using a discover_first_probe [OF assms]
    by (simp add: discover_satellite_call_def)
qed

section \<open>Discovery without deploying\<close>

lemma quiet_without_deploy: "emits (\<lambda>e. \<not> mutating e) (discover_satellite w False t)"
  unfolding discover_unfold
  apply (intro emits_seq emits_try_except emits_lookup_endpoint emits_check)
       apply (simp_all add: emits_ret emits_die mutating_def)
  apply (auto simp: discover_handler_def emits_ret split: exn.splits)
  done

text \<open>
  C10, as amended. With \<open>deploy\<close> false, \<open>discover_satellite\<close> makes no delete, create,
  push or deployment call. When the credentials are loaded and the lookup raises nothing
  but \<open>RESTAPIError\<close> or \<open>KeyError\<close>, it returns the endpoint if its probe succeeds and
  \<open>None\<close> if the lookup raised or the probe failed. Otherwise it does not return: it ends
  by \<open>cli.die\<close> when the credentials are not loaded, and any other exception of the lookup
  goes on to the caller.
\<close>

theorem discover_without_deploy:
  "list_all (\<lambda>e. \<not> mutating e) (trace (discover_satellite w False t) h) \<and>
   outcome (discover_satellite w False t) h =
     (if \<not> global_config_loaded w then Inl SystemExit
      else case lookup_endpoint w h of
             (Inl e, n) \<Rightarrow> if caught e then Inr PNone else Inl e
           | (Inr ep, n) \<Rightarrow> if probe w (h @ n) ep t then Inr (PStr ep) else Inr PNone)"
proof -
  have a: "list_all (\<lambda>e. \<not> mutating e) (trace (discover_satellite w False t) h)"
    using quiet_without_deploy unfolding emits_def trace_def by blast
  obtain r n where lk: "lookup_endpoint w h = (r, n)" by (cases "lookup_endpoint w h")
  have "outcome (discover_satellite w False t) h =
     (if \<not> global_config_loaded w then Inl SystemExit
      else case lookup_endpoint w h of
             (Inl e, n) \<Rightarrow> if caught e then Inr PNone else Inl e
           | (Inr ep, n) \<Rightarrow> if probe w (h @ n) ep t then Inr (PStr ep) else Inr PNone)"
  proof (cases "global_config_loaded w")
    case False
    then show ?thesis by (simp add: outcome_def discover_not_loaded)
  next
    case True
    show ?thesis
    proof (cases r)
      case (Inl e)
      then show ?thesis using True lk
        by (simp add: outcome_def discover_lookup_failed [OF True lk [unfolded Inl]])
    next
      case (Inr ep)
      then show ?thesis using True lk
        by (simp add: outcome_def discover_lookup_ok [OF True lk [unfolded Inr]])
    qed
  qed
  then show ?thesis using a by blast
qed

section \<open>Runs on the concrete worlds\<close>

lemmas comb_defs = ret_def throw_def seq_def try_except_def ensure_def emit_def call_def

lemmas prim_defs = cli_info_def cli_error_def cli_die_def cli_user_get_def cli_user_post_def
  cli_user_delete_def socket_gethostbyname_def check_skypipe_endpoint_def cli_select_endpoint_def
  cli_push_with_rsync_def cli_stream_deploy_logs_def getitem_def wait_for_def

lemmas stage_defs = lookup_endpoint_def destroy_satellite_def create_application_def
  push_satellite_code_def trigger_deployment_def follow_deploy_logs_def satellite_coming_online_def
  launch_satellite_def discover_satellite_def APPNAME_def

lemma healthy_launch:
  "launch_satellite healthy_world [] = (Inr (PStr ''tcp://10.0.0.5:9000''),
     [Info ''Launching skypipe satellite:'', WaitFor ''    Pushing to dotCloud'',
      UserDelete ''/applications/skypipe0'' (Inr (Response [] [] ''x'')),
      UserPost ''/applications'' [(''name'', PStr ''skypipe0''), (''flavor'', PStr ''sandbox'')]
        (Inr (Response [(''deploy_id'', ''d1'')] [] ''t1'')),
      UserGet ''/applications/skypipe0/push-endpoints'' (Inr (Response
        [(''DOTCLOUD_SATELLITE_ZMQ_HOST'', ''10.0.0.5''), (''DOTCLOUD_SATELLITE_ZMQ_PORT'', ''9000'')]
        [''rsync://push''] ''g'')),
      SelectEndpoint [''rsync://push''] ''rsync'' (Inr ''rsync://push''),
      PushWithRsync ''/opt/skypipe/satellite'' ''rsync://push'' (Inr ()),
      UserPost ''/applications/skypipe0/deployments'' [(''revision'', PNone), (''clean'', PBool False)]
        (Inr (Response [(''deploy_id'', ''d1'')] [] ''t1'')),
      WaitFor ''    Waiting for deployment'', StdoutRedirect,
      StreamDeployLogs ''skypipe0'' ''d1'' ''t1'' (Inr 0), StdoutRestore,
      WaitFor ''    Satellite coming online'',
      UserGet ''/applications/skypipe0/environment'' (Inr (Response
        [(''DOTCLOUD_SATELLITE_ZMQ_HOST'', ''10.0.0.5''), (''DOTCLOUD_SATELLITE_ZMQ_PORT'', ''9000'')]
        [''rsync://push''] ''g'')),
      GetHostByName ''10.0.0.5'' (Inr ''10.0.0.5''),
      CheckSkypipeEndpoint ''tcp://10.0.0.5:9000'' 120 True, FinishSet])"
  by (simp add: healthy_world_def stage_defs prim_defs comb_defs)

lemma conflict_launch:
  \<open>launch_satellite conflict_world [] = (Inl SystemExit,
     [Info ''Launching skypipe satellite:'', WaitFor ''    Pushing to dotCloud'',
      UserDelete ''/applications/skypipe0'' (Inr (Response [] [] ''x'')),
      UserPost ''/applications'' [(''name'', PStr ''skypipe0''), (''flavor'', PStr ''sandbox'')]
        (Inl (RESTAPIError 409)),
      Die (Some ''Application "skypipe0" already exists.'')])\<close>
  by (simp add: conflict_world_def healthy_world_def stage_defs prim_defs comb_defs)

theorem destroy_before_create_witness:
  "3 < length (trace (launch_satellite healthy_world) [])
   \<and> is_create (trace (launch_satellite healthy_world) [] ! 3)
   \<and> (\<exists>i < 3. destroy_done (trace (launch_satellite healthy_world) [] ! i))"
proof -
  have len: "3 < length (trace (launch_satellite healthy_world) [])"
    by (simp add: trace_def healthy_launch)
  have c: "is_create (trace (launch_satellite healthy_world) [] ! 3)"
    by (simp add: trace_def healthy_launch is_create_def nth_Cons')
  show ?thesis
    using destroy_before_create [of healthy_world "[]"] len c by blast
qed

theorem create_conflict_is_fatal_witness:
  "UserPost ''/applications'' [(''name'', PStr ''skypipe0''), (''flavor'', PStr ''sandbox'')]
      (Inl (RESTAPIError 409)) \<in> set (trace (launch_satellite conflict_world) [])
   \<and> outcome (launch_satellite conflict_world) [] = Inl SystemExit"
proof -
  have m: "UserPost ''/applications'' [(''name'', PStr ''skypipe0''), (''flavor'', PStr ''sandbox'')]
      (Inl (RESTAPIError 409)) \<in> set (trace (launch_satellite conflict_world) [])"
    by (simp add: trace_def conflict_launch)
  show ?thesis
    using create_conflict_is_fatal [OF m] m by blast
qed

lemma deploy_fails_launch:
  "launch_satellite (deploy_fails_world t) [] = (Inr (PInt 1),
     [Info ''Launching skypipe satellite:'', WaitFor ''    Pushing to dotCloud'',
      UserDelete ''/applications/skypipe0'' (Inr (Response [] [] ''x'')),
      UserPost ''/applications'' [(''name'', PStr ''skypipe0''), (''flavor'', PStr ''sandbox'')]
        (Inr (Response [(''deploy_id'', ''d1'')] [] t)),
      UserGet ''/applications/skypipe0/push-endpoints'' (Inr (Response
        [(''DOTCLOUD_SATELLITE_ZMQ_HOST'', ''10.0.0.5''), (''DOTCLOUD_SATELLITE_ZMQ_PORT'', ''9000'')]
        [''rsync://push''] ''g'')),
      SelectEndpoint [''rsync://push''] ''rsync'' (Inr ''rsync://push''),
      PushWithRsync ''/opt/skypipe/satellite'' ''rsync://push'' (Inr ()),
      UserPost ''/applications/skypipe0/deployments'' [(''revision'', PNone), (''clean'', PBool False)]
        (Inr (Response [(''deploy_id'', ''d1'')] [] t)),
      WaitFor ''    Waiting for deployment'', StdoutRedirect,
      StreamDeployLogs ''skypipe0'' ''d1'' t (Inr 1), StdoutRestore])"
  by (simp add: deploy_fails_world_def healthy_world_def stage_defs prim_defs comb_defs)

lemma failed_redeploy_discover:
  "outcome (discover_satellite (failed_redeploy_world t) True 5) [] = Inr (PInt 1)"
  by (simp add: outcome_def failed_redeploy_world_def deploy_fails_world_def healthy_world_def
      stage_defs prim_defs comb_defs)

text \<open>
  C2 fails on the code. After a log stream that ends with exit code 1, \<open>launch_satellite\<close>
  returns the number 1, whatever the trace identifier of the deployment, and
  \<open>discover_satellite\<close> hands that number to its caller in the place of an endpoint. No
  failure is raised and the trace identifier is not reported.
\<close>

theorem deploy_failure_returns_bare_exit_code:
  "outcome (launch_satellite (deploy_fails_world ''trace-A'')) [] = Inr (PInt 1)
   \<and> outcome (launch_satellite (deploy_fails_world ''trace-B'')) [] = Inr (PInt 1)
   \<and> outcome (discover_satellite (failed_redeploy_world ''trace-A'') True 5) [] = Inr (PInt 1)"
  by (simp add: outcome_def deploy_fails_launch failed_redeploy_discover [unfolded outcome_def])

lemma runtime_error_launch:
  "launch_satellite runtime_error_world [] = (Inr (PStr ''tcp://10.0.0.5:9000''),
     [Info ''Launching skypipe satellite:'', WaitFor ''    Pushing to dotCloud'',
      UserDelete ''/applications/skypipe0'' (Inr (Response [] [] ''x'')),
      UserPost ''/applications'' [(''name'', PStr ''skypipe0''), (''flavor'', PStr ''sandbox'')]
        (Inr (Response [(''deploy_id'', ''d1'')] [] ''t1'')),
      UserGet ''/applications/skypipe0/push-endpoints'' (Inr (Response
        [(''DOTCLOUD_SATELLITE_ZMQ_HOST'', ''10.0.0.5''), (''DOTCLOUD_SATELLITE_ZMQ_PORT'', ''9000'')]
        [''rsync://push''] ''g'')),
      SelectEndpoint [''rsync://push''] ''rsync'' (Inr ''rsync://push''),
      PushWithRsync ''/opt/skypipe/satellite'' ''rsync://push'' (Inr ()),
      UserPost ''/applications/skypipe0/deployments'' [(''revision'', PNone), (''clean'', PBool False)]
        (Inr (Response [(''deploy_id'', ''d1'')] [] ''t1'')),
      WaitFor ''    Waiting for deployment'', StdoutRedirect,
      StreamDeployLogs ''skypipe0'' ''d1'' ''t1'' (Inl RuntimeError), StdoutRestore,
      WaitFor ''    Satellite coming online'',
      UserGet ''/applications/skypipe0/environment'' (Inr (Response
        [(''DOTCLOUD_SATELLITE_ZMQ_HOST'', ''10.0.0.5''), (''DOTCLOUD_SATELLITE_ZMQ_PORT'', ''9000'')]
        [''rsync://push''] ''g'')),
      GetHostByName ''10.0.0.5'' (Inr ''10.0.0.5''),
      CheckSkypipeEndpoint ''tcp://10.0.0.5:9000'' 120 True, FinishSet])"
  by (simp add: runtime_error_world_def healthy_world_def stage_defs prim_defs comb_defs)

theorem runtime_error_in_log_stream_is_suppressed_witness:
  "StreamDeployLogs ''skypipe0'' ''d1'' ''t1'' (Inl RuntimeError)
      \<in> set (trace (launch_satellite runtime_error_world) [])
   \<and> outcome (launch_satellite runtime_error_world) [] = Inr (PStr ''tcp://10.0.0.5:9000'')
   \<and> CheckSkypipeEndpoint ''tcp://10.0.0.5:9000'' 120 True
        \<in> set (trace (launch_satellite runtime_error_world) [])
   \<and> (\<exists>pre h2 rest.
         h2 = pre @ [StreamDeployLogs ''skypipe0'' ''d1'' ''t1'' (Inl RuntimeError), StdoutRestore,
                     WaitFor ''    Satellite coming online'']
       \<and> trace (lookup_endpoint runtime_error_world) h2 =
           UserGet ''/applications/skypipe0/environment''
             (user_get runtime_error_world h2 ''/applications/skypipe0/environment'') # rest)"
proof -
  have m: "StreamDeployLogs ''skypipe0'' ''d1'' ''t1'' (Inl RuntimeError)
      \<in> set (trace (launch_satellite runtime_error_world) [])"
    by (simp add: trace_def runtime_error_launch)
  have r: "(Inl RuntimeError :: exn + int) = Inl RuntimeError \<or> (Inl RuntimeError :: exn + int) = Inr 0"
    by simp
  have o: "outcome (launch_satellite runtime_error_world) [] = Inr (PStr ''tcp://10.0.0.5:9000'')"
    by (simp add: outcome_def runtime_error_launch)
  have p: "CheckSkypipeEndpoint ''tcp://10.0.0.5:9000'' 120 True
        \<in> set (trace (launch_satellite runtime_error_world) [])"
    by (simp add: trace_def runtime_error_launch)
  have "\<exists>pre h2 rest.
         h2 = pre @ [StreamDeployLogs ''skypipe0'' ''d1'' ''t1'' (Inl RuntimeError), StdoutRestore,
                     WaitFor ''    Satellite coming online'']
       \<and> trace (lookup_endpoint runtime_error_world) h2 =
           UserGet ''/applications/skypipe0/environment''
             (user_get runtime_error_world h2 ''/applications/skypipe0/environment'') # rest"
    using runtime_error_in_log_stream_is_suppressed [OF m r] by (simp, blast)
  then show ?thesis using m o p by blast
qed

lemma never_online_launch_probe:
  "CheckSkypipeEndpoint ''tcp://10.0.0.5:9000'' 120 False
      \<in> set (trace (launch_satellite never_online_world) [])"
  by (simp add: trace_def never_online_world_def healthy_world_def stage_defs prim_defs comb_defs)

theorem failed_final_probe_is_fatal_witness:
  "CheckSkypipeEndpoint ''tcp://10.0.0.5:9000'' 120 False
      \<in> set (trace (launch_satellite never_online_world) [])
   \<and> outcome (launch_satellite never_online_world) [] = Inl SystemExit
   \<and> length (filter is_destroy (trace (launch_satellite never_online_world) [])) = 1
   \<and> length (filter is_create (trace (launch_satellite never_online_world) [])) = 1"
  using failed_final_probe_is_fatal [OF never_online_launch_probe] never_online_launch_probe
  by simp

lemma healthy_env:
  "user_get healthy_world h url = Inr (Response
      [(''DOTCLOUD_SATELLITE_ZMQ_HOST'', ''10.0.0.5''), (''DOTCLOUD_SATELLITE_ZMQ_PORT'', ''9000'')]
      [''rsync://push''] ''g'')"
  by (simp add: healthy_world_def)

theorem healthy_satellite_is_returned_witness:
  "outcome (discover_satellite healthy_world True 5) [] = Inr (PStr ''tcp://10.0.0.5:9000'')
   \<and> list_all (\<lambda>e. \<not> mutating e) (trace (discover_satellite healthy_world True 5) [])"
proof -
  let ?resp = "Response
      [(''DOTCLOUD_SATELLITE_ZMQ_HOST'', ''10.0.0.5''), (''DOTCLOUD_SATELLITE_ZMQ_PORT'', ''9000'')]
      [''rsync://push''] ''g''"
  have 1: "global_config_loaded healthy_world" by (simp add: healthy_world_def)
  have 2: "user_get healthy_world [] ''/applications/skypipe0/environment'' = Inr ?resp"
    by (rule healthy_env)
  have 3: "map_of (item ?resp) ''DOTCLOUD_SATELLITE_ZMQ_HOST'' = Some ''10.0.0.5''" by simp
  have 4: "map_of (item ?resp) ''DOTCLOUD_SATELLITE_ZMQ_PORT'' = Some ''9000''" by simp
  have 5: "gethostbyname healthy_world
      ([] @ [UserGet ''/applications/skypipe0/environment'' (Inr ?resp)]) ''10.0.0.5''
      = Inr ''10.0.0.5''"
    by (simp add: healthy_world_def)
  have 6: "probe healthy_world ([] @ [UserGet ''/applications/skypipe0/environment'' (Inr ?resp),
      GetHostByName ''10.0.0.5'' (Inr ''10.0.0.5'')]) ''tcp://10.0.0.5:9000'' 5"
    by (simp add: healthy_world_def)
  show ?thesis
    using healthy_satellite_is_returned [OF 1 2 3 4 5 6, of True] by blast
qed







lemma slow_lookup:
  "lookup_endpoint slow_world [] = (Inr ''tcp://10.0.0.5:9000'',
     [UserGet ''/applications/skypipe0/environment'' (Inr (Response
        [(''DOTCLOUD_SATELLITE_ZMQ_HOST'', ''10.0.0.5''), (''DOTCLOUD_SATELLITE_ZMQ_PORT'', ''9000'')]
        [''rsync://push''] ''g'')),
      GetHostByName ''10.0.0.5'' (Inr ''10.0.0.5'')])"
  by (simp add: slow_world_def healthy_world_def stage_defs prim_defs comb_defs)

lemma slow_discover:
  "outcome (discover_satellite_call slow_world None None) [] = Inr (PStr ''tcp://10.0.0.5:9000'')
   \<and> CheckSkypipeEndpoint ''tcp://10.0.0.5:9000'' 120 True
        \<in> set (trace (discover_satellite_call slow_world None None) [])"
  by (simp add: outcome_def trace_def discover_satellite_call_def slow_world_def healthy_world_def
      stage_defs prim_defs comb_defs)

theorem probe_timeouts_witness:
  "global_config_loaded slow_world
   \<and> (\<exists>n rest. trace (discover_satellite_call slow_world None None) [] =
          n @ CheckSkypipeEndpoint ''tcp://10.0.0.5:9000'' 5 False # rest
        \<and> list_all (probe_timeout_is 120) rest)
   \<and> CheckSkypipeEndpoint ''tcp://10.0.0.5:9000'' 120 True
        \<in> set (trace (discover_satellite_call slow_world None None) [])
   \<and> outcome (discover_satellite_call slow_world None None) [] = Inr (PStr ''tcp://10.0.0.5:9000'')"
proof -
  have l: "global_config_loaded slow_world" by (simp add: slow_world_def healthy_world_def)
  have p: "probe slow_world h ep 5 = False" for h ep by (simp add: slow_world_def)
  have "\<exists>rest. trace (discover_satellite_call slow_world None None) [] =
            [UserGet ''/applications/skypipe0/environment'' (Inr (Response
               [(''DOTCLOUD_SATELLITE_ZMQ_HOST'', ''10.0.0.5''),
                (''DOTCLOUD_SATELLITE_ZMQ_PORT'', ''9000'')] [''rsync://push''] ''g'')),
             GetHostByName ''10.0.0.5'' (Inr ''10.0.0.5'')]
            @ CheckSkypipeEndpoint ''tcp://10.0.0.5:9000'' 5 False # rest
          \<and> list_all (probe_timeout_is 120) rest"
    using probe_timeouts [where h' = "[]" and deploy = None and t = 5, OF l slow_lookup]
    unfolding p by blast
  then have "\<exists>n rest. trace (discover_satellite_call slow_world None None) [] =
          n @ CheckSkypipeEndpoint ''tcp://10.0.0.5:9000'' 5 False # rest
        \<and> list_all (probe_timeout_is 120) rest"
    by blast
  then show ?thesis using l slow_discover by blast
qed

theorem discover_without_deploy_witness:
  "list_all (\<lambda>e. \<not> mutating e) (trace (discover_satellite never_online_world False 5) [])
   \<and> outcome (discover_satellite never_online_world False 5) [] = Inr PNone"
proof -
  have "lookup_endpoint never_online_world [] = (Inr ''tcp://10.0.0.5:9000'',
     [UserGet ''/applications/skypipe0/environment'' (Inr (Response
        [(''DOTCLOUD_SATELLITE_ZMQ_HOST'', ''10.0.0.5''), (''DOTCLOUD_SATELLITE_ZMQ_PORT'', ''9000'')]
        [''rsync://push''] ''g'')),
      GetHostByName ''10.0.0.5'' (Inr ''10.0.0.5'')])"
    by (simp add: never_online_world_def healthy_world_def stage_defs prim_defs comb_defs)
  then show ?thesis
    using discover_without_deploy [of never_online_world 5 "[]"]
    by (simp add: never_online_world_def healthy_world_def)
qed

text \<open>
  Against C10 as stated: with deploying switched off, a run may end without returning
  anything, by \<open>cli.die\<close> when the credentials are not loaded, and by the error of the name
  resolution, which no \<open>except\<close> clause catches.
\<close>

theorem discover_without_deploy_may_raise:
  "outcome (discover_satellite unconfigured_world False 5) [] = Inl SystemExit
   \<and> outcome (discover_satellite unresolved_world False 5) [] = Inl (OtherError ''socket.gaierror'')"
  by (simp add: outcome_def unconfigured_world_def unresolved_world_def healthy_world_def
      stage_defs prim_defs comb_defs)

section \<open>A second redeploy within one discovery\<close>

text \<open>
  C1 fails on the code. The lookup succeeds and the first probe fails, so
  \<open>launch_satellite\<close> runs inside the \<open>try\<close>; the listing of the push endpoints raises
  \<open>RESTAPIError\<close>, the \<open>except\<close> clause meant for the lookup catches it, and
  \<open>launch_satellite\<close> runs a second time: two announcements, two deletes, two creates.
\<close>

theorem redeploy_attempted_twice:
  "length (filter (\<lambda>e. e = Info ''Launching skypipe satellite:'')
      (trace (discover_satellite stale_world True 5) [])) = 2
   \<and> length (filter is_destroy (trace (discover_satellite stale_world True 5) [])) = 2
   \<and> length (filter is_create (trace (discover_satellite stale_world True 5) [])) = 2
   \<and> outcome (discover_satellite stale_world True 5) [] = Inl (RESTAPIError 500)"
  by (simp add: outcome_def trace_def stale_world_def healthy_world_def
      stage_defs prim_defs comb_defs is_destroy_def is_create_def)

end
